theory Spec2Isabelle
  imports Complex_Main
begin

section \<open>Shared data: candles\<close>

text \<open>
  A candle is the exchange row \<^verbatim>\<open>[timestamp, open, high, low, close, volume]\<close>
  (indices 0..5 in the source).  Python floats are modelled as reals throughout; rounding that
  the source applies only to reported figures is left out where noted.
\<close>

record candle =
  c_time :: real
  c_open :: real
  c_high :: real
  c_low :: real
  c_close :: real
  c_volume :: real

text \<open>Python's \<^verbatim>\<open>xs[-n:]\<close>: the last \<open>n\<close> elements, or all of \<open>xs\<close> when it is shorter.\<close>

definition py_last_n :: "nat \<Rightarrow> 'a list \<Rightarrow> 'a list" where
  "py_last_n n xs = drop (length xs - n) xs"

section \<open>Risk Calibrator: \<^verbatim>\<open>TradingEngine.calculate_scalping_sl_tp\<close> (services/trading.py)\<close>

text \<open>
  The True-Range loop: \<^verbatim>\<open>prev_close\<close> starts at the first close and is updated
  after every candle.
\<close>

fun true_ranges :: "real \<Rightarrow> candle list \<Rightarrow> real list" where
  "true_ranges prev_close [] = []"
| "true_ranges prev_close (c # cs) =
     max (max (c_high c - c_low c) \<bar>c_high c - prev_close\<bar>) \<bar>c_low c - prev_close\<bar>
       # true_ranges (c_close c) cs"

text \<open>The exponential average: starts at \<^verbatim>\<open>tr[0]\<close> and folds over \<^verbatim>\<open>tr[1:]\<close>.\<close>

definition atr_ema_of :: "real \<Rightarrow> real list \<Rightarrow> real" where
  "atr_ema_of alpha tr = foldl (\<lambda>atr_ema tr_val. alpha * tr_val + (1 - alpha) * atr_ema) (hd tr) (tl tr)"

text \<open>
  Lines 87-100: the minimum stop and target percentages, scaled by the volatility class of the
  instrument.
\<close>

definition adaptive_minimums :: "real \<Rightarrow> real \<times> real" where
  "adaptive_minimums atr_pct =
     (let base_min_sl_pct = 0.30;
          base_min_tp_pct = 0.55
      in if atr_pct > 1.5 then (base_min_sl_pct * 1.3, base_min_tp_pct * 1.3)
         else if atr_pct < 0.5 then (base_min_sl_pct * 0.9, base_min_tp_pct * 0.9)
         else (base_min_sl_pct, base_min_tp_pct))"

definition target_rr :: real where
  "target_rr = 3.0"

text \<open>Lines 108-112: the target distance is stretched to the target reward:risk ratio.\<close>

definition stretch_to_target_rr :: "real \<Rightarrow> real \<Rightarrow> real" where
  "stretch_to_target_rr sl_pct tp_pct =
     (if tp_pct / sl_pct < target_rr then sl_pct * target_rr else tp_pct)"

text \<open>
  Lines 114-123: for volatile pairs the target is raised towards \<^verbatim>\<open>min(atr_pct * 2, 5)\<close>,
  and the stop is widened when the ratio would exceed \<^verbatim>\<open>target_rr * 1.2\<close>.
\<close>

definition extend_for_volatile :: "real \<Rightarrow> real \<times> real \<Rightarrow> real \<times> real" where
  "extend_for_volatile atr_pct p =
     (case p of (sl_pct, tp_pct) \<Rightarrow>
        if atr_pct > 1.0 \<and> tp_pct < 5.0 then
          (let max_tp_for_volatile = min (atr_pct * 2.0) 5.0 in
           if tp_pct < max_tp_for_volatile then
             (if max_tp_for_volatile / sl_pct > target_rr * 1.2
              then (max_tp_for_volatile / target_rr, max_tp_for_volatile)
              else (sl_pct, max_tp_for_volatile))
           else (sl_pct, tp_pct))
        else (sl_pct, tp_pct))"

text \<open>Lines 125-131: the hard caps, wider for volatile pairs.\<close>

definition max_sl_pct :: "real \<Rightarrow> real" where
  "max_sl_pct atr_pct = (if atr_pct > 1.0 then 2.5 else 2.0)"

definition max_tp_pct :: "real \<Rightarrow> real" where
  "max_tp_pct atr_pct = (if atr_pct > 1.0 then 5.0 else 4.0)"

definition clip_to_caps :: "real \<Rightarrow> real \<times> real \<Rightarrow> real \<times> real" where
  "clip_to_caps atr_pct p =
     (case p of (sl_pct, tp_pct) \<Rightarrow>
        (min sl_pct (max_sl_pct atr_pct), min tp_pct (max_tp_pct atr_pct)))"

text \<open>Lines 87-131 in sequence: the pair \<^verbatim>\<open>(sl_pct, tp_pct)\<close> as it stands after line 131.\<close>

definition sl_tp_percentages :: "real \<Rightarrow> real \<Rightarrow> real \<times> real" where
  "sl_tp_percentages atr_pct volatility_ratio =
     (case adaptive_minimums atr_pct of (min_sl_pct, min_tp_pct) \<Rightarrow>
        (let sl_pct = max min_sl_pct (atr_pct * 1.2 * volatility_ratio);
             tp_pct = max min_tp_pct (atr_pct * 1.5 * volatility_ratio);
             tp_pct = stretch_to_target_rr sl_pct tp_pct
         in clip_to_caps atr_pct (extend_for_volatile atr_pct (sl_pct, tp_pct))))"

text \<open>
  Lines 152-180: the replay of the candles \<^verbatim>\<open>range(len(ohlcv) - 20, len(ohlcv) - 1)\<close>
  against the computed levels; a candle counts as a target hit first, as a stop hit otherwise.
\<close>

fun count_hits :: "bool \<Rightarrow> real \<Rightarrow> real \<Rightarrow> candle list \<Rightarrow> nat \<times> nat" where
  "count_hits is_long stop_loss take_profit [] = (0, 0)"
| "count_hits is_long stop_loss take_profit (c # cs) =
     (let (tp_hits, sl_hits) = count_hits is_long stop_loss take_profit cs in
      if is_long then
        (if c_high c \<ge> take_profit then (tp_hits + 1, sl_hits)
         else if c_low c \<le> stop_loss then (tp_hits, sl_hits + 1)
         else (tp_hits, sl_hits))
      else
        (if c_low c \<le> take_profit then (tp_hits + 1, sl_hits)
         else if c_high c \<ge> stop_loss then (tp_hits, sl_hits + 1)
         else (tp_hits, sl_hits)))"

definition tp_hit_rate_of :: "bool \<Rightarrow> real \<Rightarrow> real \<Rightarrow> candle list \<Rightarrow> real option" where
  "tp_hit_rate_of is_long stop_loss take_profit ohlcv =
     (if length ohlcv \<ge> 20 then
        (let (tp_hits, sl_hits) =
               count_hits is_long stop_loss take_profit (take 19 (drop (length ohlcv - 20) ohlcv));
             total_checks = tp_hits + sl_hits
         in if total_checks > 0 then Some (real tp_hits / real total_checks * 100) else None)
      else None)"

text \<open>
  The three early returns carry \<^verbatim>\<open>stop_loss = take_profit = None\<close> and a reason; they
  are the left summand.  A computed result carries the two prices and the \<^verbatim>\<open>meta\<close>
  figures; the source rounds the \<^verbatim>\<open>meta\<close> figures for display, the model keeps them exact.
\<close>

datatype no_levels = Entry_not_positive | Not_enough_ohlcv | Not_enough_tr

record levels =
  lv_stop_loss :: real
  lv_take_profit :: real
  lv_atr :: real
  lv_atr_pct :: real
  lv_volatility_ratio :: real
  lv_sl_pct :: real
  lv_tp_pct :: real
  lv_risk_reward_ratio :: real
  lv_tp_hit_rate :: "real option"

definition calculate_scalping_sl_tp :: "real \<Rightarrow> string \<Rightarrow> candle list \<Rightarrow> no_levels + levels" where
  "calculate_scalping_sl_tp entry direction ohlcv =
     (if entry \<le> 0 then Inl Entry_not_positive
      else if ohlcv = [] \<or> length ohlcv < 50 then Inl Not_enough_ohlcv
      else
        (let tr = true_ranges (c_close (hd ohlcv)) ohlcv;
             period = 14
         in if length tr < period + 1 then Inl Not_enough_tr
            else
              (let alpha = 2.0 / (real period + 1);
                   atr_ema = atr_ema_of alpha tr;
                   atr_sma = sum_list (py_last_n period tr) / real period;
                   atr = (atr_ema + atr_sma) / 2;
                   atr_pct = (if entry > 0 then (atr / entry) * 100 else 0);
                   recent_atr = (if length tr \<ge> 7 then sum_list (py_last_n 7 tr) / 7 else atr);
                   long_atr = sum_list (py_last_n period tr) / real period;
                   volatility_ratio = (if long_atr > 0 then recent_atr / long_atr else 1.0);
                   volatility_ratio = max 0.8 (min 1.5 volatility_ratio);
                   (sl_pct, tp_pct) = sl_tp_percentages atr_pct volatility_ratio;
                   is_long = (direction = ''long'');
                   (stop_loss, take_profit) =
                      (if is_long then (entry * (1 - sl_pct / 100), entry * (1 + tp_pct / 100))
                       else (entry * (1 + sl_pct / 100), entry * (1 - tp_pct / 100)));
                   (stop_loss, take_profit) =
                      (if is_long \<and> \<not> (stop_loss < entry \<and> entry < take_profit)
                       then (entry * (1 - sl_pct / 100), entry * (1 + tp_pct / 100))
                       else (stop_loss, take_profit));
                   (stop_loss, take_profit) =
                      (if (\<not> is_long) \<and> \<not> (take_profit < entry \<and> entry < stop_loss)
                       then (entry * (1 + sl_pct / 100), entry * (1 - tp_pct / 100))
                       else (stop_loss, take_profit));
                   risk_reward_ratio = (if sl_pct > 0 then tp_pct / sl_pct else 0)
               in Inr \<lparr> lv_stop_loss = stop_loss, lv_take_profit = take_profit,
                        lv_atr = atr, lv_atr_pct = atr_pct,
                        lv_volatility_ratio = volatility_ratio,
                        lv_sl_pct = sl_pct, lv_tp_pct = tp_pct,
                        lv_risk_reward_ratio = risk_reward_ratio,
                        lv_tp_hit_rate = tp_hit_rate_of is_long stop_loss take_profit ohlcv \<rparr>)))"

subsection \<open>Example candle series\<close>

text \<open>
  Three 50-candle series of one repeated candle: a wide one (range 3 at price 100, so
  \<^verbatim>\<open>atr_pct = 3\<close>), and a calm one (range 0.5, so \<^verbatim>\<open>atr_pct = 0.5\<close>), with the levels the
  calibrator computes for them.
\<close>

definition wide_candle :: candle where
  "wide_candle = \<lparr> c_time = 0, c_open = 100, c_high = 103, c_low = 100, c_close = 100, c_volume = 1 \<rparr>"

definition calm_candle :: candle where
  "calm_candle = \<lparr> c_time = 0, c_open = 100, c_high = 100.5, c_low = 100, c_close = 100, c_volume = 1 \<rparr>"


definition calm_long_levels :: levels where
  "calm_long_levels =
     \<lparr> lv_stop_loss = 497 / 5, lv_take_profit = 509 / 5, lv_atr = 1 / 2, lv_atr_pct = 1 / 2,
       lv_volatility_ratio = 1, lv_sl_pct = 3 / 5, lv_tp_pct = 9 / 5,
       lv_risk_reward_ratio = 3, lv_tp_hit_rate = None \<rparr>"

definition calm_short_levels :: levels where
  "calm_short_levels =
     \<lparr> lv_stop_loss = 503 / 5, lv_take_profit = 491 / 5, lv_atr = 1 / 2, lv_atr_pct = 1 / 2,
       lv_volatility_ratio = 1, lv_sl_pct = 3 / 5, lv_tp_pct = 9 / 5,
       lv_risk_reward_ratio = 3, lv_tp_hit_rate = None \<rparr>"

subsection \<open>Properties of the percentage pipeline\<close>

lemma adaptive_minimums_pos:
  "adaptive_minimums a = (m1, m2) \<Longrightarrow> 27 / 100 \<le> m1 \<and> 0 < m2"
  by (auto simp: adaptive_minimums_def Let_def split: if_splits)

lemma stretch_to_target_rr_ge:
  "0 < sl \<Longrightarrow> 3 * sl \<le> stretch_to_target_rr sl tp \<and> tp \<le> stretch_to_target_rr sl tp"
  by (auto simp: stretch_to_target_rr_def target_rr_def field_simps)

lemma extend_for_volatile_keeps_ratio:
  assumes "0 < sl" "3 * sl \<le> tp" "extend_for_volatile a (sl, tp) = (sl', tp')"
  shows "sl \<le> sl' \<and> 3 * sl' \<le> tp'"
  using assms
  by (auto simp: extend_for_volatile_def target_rr_def Let_def field_simps split: if_splits)

lemma clip_to_caps_bounds:
  assumes "0 < sl" "3 * sl \<le> tp" "clip_to_caps a (sl, tp) = (sl', tp')"
  shows "0 < sl' \<and> sl' \<le> 5 / 2 \<and> 0 < tp' \<and> tp' \<le> 5 \<and> 2 * sl' \<le> tp'
         \<and> (tp' < max_tp_pct a \<longrightarrow> 3 * sl' \<le> tp')"
  using assms
  by (auto simp: clip_to_caps_def max_sl_pct_def max_tp_pct_def split: if_splits)

lemma sl_tp_percentages_bounds:
  assumes "sl_tp_percentages a v = (sl, tp)"
  shows "0 < sl \<and> sl \<le> 5 / 2 \<and> 0 < tp \<and> tp \<le> 5 \<and> 2 * sl \<le> tp
         \<and> (tp < max_tp_pct a \<longrightarrow> 3 * sl \<le> tp)"
proof -
  obtain m1 m2 where m: "adaptive_minimums a = (m1, m2)"
    by (cases "adaptive_minimums a")
  define sl0 where "sl0 = max m1 (a * 1.2 * v)"
  define tp0 where "tp0 = stretch_to_target_rr sl0 (max m2 (a * 1.5 * v))"
  obtain sl1 tp1 where e: "extend_for_volatile a (sl0, tp0) = (sl1, tp1)"
    by (cases "extend_for_volatile a (sl0, tp0)")
  have c: "clip_to_caps a (sl1, tp1) = (sl, tp)"
    using assms m e by (simp add: sl_tp_percentages_def Let_def sl0_def tp0_def)
  have p0: "0 < sl0"
    using adaptive_minimums_pos[OF m] by (simp add: sl0_def max_def)
  have r0: "3 * sl0 \<le> tp0"
    using stretch_to_target_rr_ge[OF p0] by (simp add: tp0_def)
  have "sl0 \<le> sl1 \<and> 3 * sl1 \<le> tp1"
    by (rule extend_for_volatile_keeps_ratio[OF p0 r0 e])
  then have "0 < sl1" "3 * sl1 \<le> tp1"
    using p0 by auto
  then show ?thesis
    using clip_to_caps_bounds[OF _ _ c] by blast
qed

text \<open>What a computed result is made of: the inversion of the three early returns.\<close>

lemma calculate_scalping_sl_tp_Inr:
  assumes "calculate_scalping_sl_tp entry direction ohlcv = Inr lv"
  shows "0 < entry \<and> 50 \<le> length ohlcv
         \<and> sl_tp_percentages (lv_atr_pct lv) (lv_volatility_ratio lv) = (lv_sl_pct lv, lv_tp_pct lv)
         \<and> lv_risk_reward_ratio lv = (if lv_sl_pct lv > 0 then lv_tp_pct lv / lv_sl_pct lv else 0)
         \<and> lv_stop_loss lv = (if direction = ''long'' then entry * (1 - lv_sl_pct lv / 100)
                               else entry * (1 + lv_sl_pct lv / 100))
         \<and> lv_take_profit lv = (if direction = ''long'' then entry * (1 + lv_tp_pct lv / 100)
                               else entry * (1 - lv_tp_pct lv / 100))"
  using assms
  unfolding calculate_scalping_sl_tp_def Let_def
  by (auto split: if_splits prod.splits)

subsection \<open>The calibrator on the example series\<close>

lemma true_ranges_replicate:
  "true_ranges (c_close c) (replicate n c) =
     replicate n (max (max (c_high c - c_low c) \<bar>c_high c - c_close c\<bar>) \<bar>c_low c - c_close c\<bar>)"
  by (induction n) simp_all

lemma foldl_ema_const:
  "foldl (\<lambda>atr_ema tr_val. alpha * tr_val + (1 - alpha) * atr_ema) t (replicate m t) = (t::real)"
  by (induction m) (simp_all add: algebra_simps)

lemma atr_ema_of_replicate: "atr_ema_of alpha (replicate (Suc n) t) = t"
  by (simp add: atr_ema_of_def foldl_ema_const)

lemma py_last_n_replicate: "py_last_n k (replicate n t) = replicate (min k n) t"
  by (simp add: py_last_n_def min_def)

lemma count_hits_none:
  assumes "\<forall>c \<in> set cs. if is_long then \<not> c_high c \<ge> tp \<and> \<not> c_low c \<le> sl
                                     else \<not> c_low c \<le> tp \<and> \<not> c_high c \<ge> sl"
  shows "count_hits is_long sl tp cs = (0, 0)"
  using assms by (induction cs) (auto split: if_splits)


lemma sl_tp_percentages_calm: "sl_tp_percentages (1 / 2) 1 = (3 / 5, 9 / 5)"
  by (simp add: sl_tp_percentages_def adaptive_minimums_def stretch_to_target_rr_def
        extend_for_volatile_def clip_to_caps_def max_sl_pct_def max_tp_pct_def target_rr_def Let_def)


lemma calibrate_calm_long:
  "calculate_scalping_sl_tp 100 ''long'' (replicate 50 calm_candle) = Inr calm_long_levels"
proof -
  have tr: "true_ranges (c_close calm_candle) (replicate 50 calm_candle) = replicate 50 (1 / 2)"
    using true_ranges_replicate[of calm_candle 50] by (simp add: calm_candle_def)
  have ema: "atr_ema_of a (replicate 50 (1 / 2 :: real)) = 1 / 2" for a
    using atr_ema_of_replicate[of a 49 "1 / 2"] by simp
  have hits: "count_hits True (497 / 5) (509 / 5) (replicate 19 calm_candle) = (0, 0)"
    by (rule count_hits_none) (simp add: calm_candle_def)
  show ?thesis
    by (simp add: calculate_scalping_sl_tp_def tr ema py_last_n_replicate sum_list_replicate
          Let_def sl_tp_percentages_calm tp_hit_rate_of_def hits calm_long_levels_def)
qed

lemma calibrate_calm_short:
  "calculate_scalping_sl_tp 100 ''short'' (replicate 50 calm_candle) = Inr calm_short_levels"
proof -
  have tr: "true_ranges (c_close calm_candle) (replicate 50 calm_candle) = replicate 50 (1 / 2)"
    using true_ranges_replicate[of calm_candle 50] by (simp add: calm_candle_def)
  have ema: "atr_ema_of a (replicate 50 (1 / 2 :: real)) = 1 / 2" for a
    using atr_ema_of_replicate[of a 49 "1 / 2"] by simp
  have hits: "count_hits False (503 / 5) (491 / 5) (replicate 19 calm_candle) = (0, 0)"
    by (rule count_hits_none) (simp add: calm_candle_def)
  show ?thesis
    by (simp add: calculate_scalping_sl_tp_def tr ema py_last_n_replicate sum_list_replicate
          Let_def sl_tp_percentages_calm tp_hit_rate_of_def hits calm_short_levels_def)
qed

subsection \<open>Claims on the Risk Calibrator\<close>

text \<open>
  Claim C2.  Every computed result of the calibrator (entry above zero, at least 50 candles)
  brackets the entry price: for direction \<^verbatim>\<open>long\<close> the stop lies strictly below and the
  target strictly above the entry; for direction \<^verbatim>\<open>short\<close> the target lies strictly below
  and the stop strictly above.  (Over the reals; the stop and target percentages are always
  positive, so the re-validation at lines 141-147 never changes anything.)
\<close>

theorem calibrator_levels_bracket_entry:
  assumes "calculate_scalping_sl_tp entry direction ohlcv = Inr lv"
  shows "(direction = ''long'' \<longrightarrow> lv_stop_loss lv < entry \<and> entry < lv_take_profit lv)
       \<and> (direction = ''short'' \<longrightarrow> lv_take_profit lv < entry \<and> entry < lv_stop_loss lv)"
proof -
  note r = calculate_scalping_sl_tp_Inr[OF assms]
  from r have e: "0 < entry"
    by blast
  from r have "sl_tp_percentages (lv_atr_pct lv) (lv_volatility_ratio lv) = (lv_sl_pct lv, lv_tp_pct lv)"
    by blast
  from sl_tp_percentages_bounds[OF this] have p: "0 < lv_sl_pct lv" "0 < lv_tp_pct lv"
    by auto
  have a: "entry * (1 - x / 100) < entry" "entry < entry * (1 + x / 100)" if "0 < x" for x
    using e that by (simp_all add: algebra_simps)
  show ?thesis
    using r a[OF p(1)] a[OF p(2)] by auto
qed

theorem calibrator_levels_bracket_entry_witness:
  "calculate_scalping_sl_tp 100 ''long'' (replicate 50 calm_candle) = Inr calm_long_levels
   \<and> lv_stop_loss calm_long_levels < 100 \<and> 100 < lv_take_profit calm_long_levels
   \<and> calculate_scalping_sl_tp 100 ''short'' (replicate 50 calm_candle) = Inr calm_short_levels
   \<and> lv_take_profit calm_short_levels < 100 \<and> 100 < lv_stop_loss calm_short_levels"
  using calibrator_levels_bracket_entry[OF calibrate_calm_long]
        calibrator_levels_bracket_entry[OF calibrate_calm_short]
        calibrate_calm_long calibrate_calm_short
  by simp




section \<open>Signal Fusion Scorer: \<^verbatim>\<open>MarketAnalyzer.analyze_market\<close> (services/market_analysis.py)\<close>

text \<open>
  The scorer reads the results of the candle analysis, the indicator aggregator and the
  microstructure analyzer.  Those results are the input of the model: the dictionaries become
  records, a key that may be absent or \<^verbatim>\<open>None\<close> becomes an option.
\<close>

datatype py_error = AttributeError | ValueError | OverflowError

text \<open>Python's \<^verbatim>\<open>s in t\<close> on strings.\<close>

fun py_in :: "string \<Rightarrow> string \<Rightarrow> bool" where
  "py_in s [] = (s = [])"
| "py_in s (c # cs) = (take (length s) (c # cs) = s \<or> py_in s cs)"

text \<open>Python's truth value of a number that may be \<^verbatim>\<open>None\<close>.\<close>

definition truthy :: "real option \<Rightarrow> bool" where
  "truthy x = (case x of None \<Rightarrow> False | Some v \<Rightarrow> v \<noteq> 0)"

record adv_signal =
  sg_source :: string
  sg_type :: string
  sg_strength :: real

record fvg =
  fvg_type :: string
  zone_start :: real
  zone_end :: real
  mid_point :: real

record order_flow =
  of_direction :: string
  of_strength :: real
  of_signal :: string

text \<open>
  \<^verbatim>\<open>comprehensive_analysis\<close>'s result, as far as the scorer, the cancellation rules and
  the decision read it.  \<open>aa_order_flow\<close> is \<open>None\<close> for the empty dictionary;
  \<open>aa_liquidity_sweeps\<close> holds each sweep's \<^verbatim>\<open>signal\<close>; \<open>aa_bos\<close> and
  \<open>aa_choch\<close> say whether \<^verbatim>\<open>structure\<close> holds a break.
\<close>

record advanced_analysis =
  aa_signals :: "adv_signal list"
  aa_order_flow :: "order_flow option"
  aa_liquidity_sweeps :: "string list"
  aa_fvgs :: "fvg list"
  aa_has_imbalances :: bool
  aa_has_stb_zones :: bool
  aa_bos :: bool
  aa_choch :: bool
  aa_nearest_pool_above :: "real option"
  aa_nearest_pool_below :: "real option"

record indicators =
  rsi_signal :: string
  macd_signal_type :: "string option"
  vwap_position :: "string option"
  mfi_signal :: "string option"
  ichimoku_position :: "string option"
  ema_trend :: string
  volume_ratio :: real

text \<open>
  \<open>mv_divergence\<close> is \<open>None\<close> when \<^verbatim>\<open>rsi_values\<close> is empty, and otherwise the pair
  \<^verbatim>\<open>(has_divergence, signal)\<close> that \<^verbatim>\<open>detect_divergence\<close> returned.
\<close>

record market_view =
  mv_current_price :: "real option"
  mv_candle_signal :: "string option"
  mv_indicators :: indicators
  mv_advanced :: advanced_analysis
  mv_divergence :: "(bool \<times> string) option"

subsection \<open>Votes: lines 329-435\<close>

text \<open>
  One two-way vote: \<^verbatim>\<open>if up: signals.append(up_name); signal_strength += w
  elif down: signals.append(down_name); signal_strength -= w\<close>.
\<close>

definition two_way_vote ::
  "bool \<Rightarrow> string \<Rightarrow> bool \<Rightarrow> string \<Rightarrow> real \<Rightarrow> string list \<times> real \<Rightarrow> string list \<times> real" where
  "two_way_vote up up_name down down_name w st =
     (case st of (signals, signal_strength) \<Rightarrow>
        if up then (signals @ [up_name], signal_strength + w)
        else if down then (signals @ [down_name], signal_strength - w)
        else (signals, signal_strength))"

fun advanced_votes :: "adv_signal list \<Rightarrow> string list \<times> real \<Rightarrow> string list \<times> real" where
  "advanced_votes [] st = st"
| "advanced_votes (adv_signal # rest) (signals, signal_strength) =
     advanced_votes rest
       (if sg_type adv_signal = ''long''
        then (signals @ [sg_source adv_signal @ ''_long''], signal_strength + sg_strength adv_signal * 5)
        else if sg_type adv_signal = ''short''
        then (signals @ [sg_source adv_signal @ ''_short''], signal_strength - sg_strength adv_signal * 5)
        else (signals, signal_strength))"

definition order_flow_direction :: "advanced_analysis \<Rightarrow> string" where
  "order_flow_direction aa = (case aa_order_flow aa of None \<Rightarrow> ''neutral'' | Some f \<Rightarrow> of_direction f)"

definition order_flow_signal :: "advanced_analysis \<Rightarrow> string" where
  "order_flow_signal aa = (case aa_order_flow aa of None \<Rightarrow> ''neutral'' | Some f \<Rightarrow> of_signal f)"

definition order_flow_strength :: "advanced_analysis \<Rightarrow> real" where
  "order_flow_strength aa = (case aa_order_flow aa of None \<Rightarrow> 1.0 | Some f \<Rightarrow> of_strength f)"

text \<open>The last sweep moves the strength by 20 and appends no signal name.\<close>

definition sweep_vote :: "string list \<Rightarrow> string list \<times> real \<Rightarrow> string list \<times> real" where
  "sweep_vote sweeps st =
     (case st of (signals, signal_strength) \<Rightarrow>
        (case py_last_n 1 sweeps of
           [] \<Rightarrow> (signals, signal_strength)
         | sweep # _ \<Rightarrow>
             if sweep = ''long'' then (signals, signal_strength + 20)
             else if sweep = ''short'' then (signals, signal_strength - 20)
             else (signals, signal_strength)))"

definition divergence_vote :: "(bool \<times> string) option \<Rightarrow> string list \<times> real \<Rightarrow> string list \<times> real" where
  "divergence_vote d st =
     (case d of
        None \<Rightarrow> st
      | Some (has_divergence, div_signal) \<Rightarrow>
          if has_divergence
          then two_way_vote (div_signal = ''long'') ''divergence_bullish''
                            (div_signal = ''short'') ''divergence_bearish'' 25 st
          else st)"

definition collect_votes :: "market_view \<Rightarrow> string list \<times> real" where
  "collect_votes v =
     (let ind = mv_indicators v;
          aa = mv_advanced v;
          st = ([], 0);
          st = two_way_vote (mv_candle_signal v = Some ''bullish'') ''bullish_candle''
                            (mv_candle_signal v = Some ''bearish'') ''bearish_candle'' 20 st;
          st = two_way_vote (rsi_signal ind = ''oversold'') ''rsi_oversold''
                            (rsi_signal ind = ''overbought'') ''rsi_overbought'' 15 st;
          st = two_way_vote (macd_signal_type ind = Some ''bullish'') ''macd_bullish''
                            (macd_signal_type ind = Some ''bearish'') ''macd_bearish'' 15 st;
          st = two_way_vote (vwap_position ind = Some ''above'') ''vwap_above''
                            (vwap_position ind = Some ''below'') ''vwap_below'' 10 st;
          st = two_way_vote (mfi_signal ind = Some ''oversold'') ''mfi_oversold''
                            (mfi_signal ind = Some ''overbought'') ''mfi_overbought'' 10 st;
          st = two_way_vote (ichimoku_position ind = Some ''above_cloud'') ''ichimoku_above_cloud''
                            (ichimoku_position ind = Some ''below_cloud'') ''ichimoku_below_cloud'' 12 st;
          st = two_way_vote (py_in ''bullish'' (ema_trend ind)) ''ema_bullish''
                            (py_in ''bearish'' (ema_trend ind)) ''ema_bearish'' 10 st;
          st = advanced_votes (aa_signals aa) st;
          st = two_way_vote (order_flow_direction aa = ''bullish'') ''order_flow_bullish''
                            (order_flow_direction aa = ''bearish'') ''order_flow_bearish'' 15 st;
          st = sweep_vote (aa_liquidity_sweeps aa) st
      in divergence_vote (mv_divergence v) st)"

subsection \<open>Confirmation sources: lines 437-474\<close>

text \<open>
  The level test walks the last two fair-value gaps and stops at the first one the price sits
  in; the guard \<^verbatim>\<open>if fvgs or imbalances or stb_zones\<close> only decides whether the walk starts.
\<close>

fun fvg_level_test :: "real option \<Rightarrow> fvg list \<Rightarrow> bool" where
  "fvg_level_test current_price [] = False"
| "fvg_level_test current_price (g # rest) =
     (if fvg_type g = ''bullish_fvg'' \<and> truthy current_price then
        (if zone_start g \<le> the current_price \<and> the current_price \<le> zone_end g * 1.01 then True
         else fvg_level_test current_price rest)
      else if fvg_type g = ''bearish_fvg'' \<and> truthy current_price then
        (if zone_end g \<le> the current_price \<and> the current_price \<le> zone_start g * 1.01 then True
         else fvg_level_test current_price rest)
      else fvg_level_test current_price rest)"

definition has_level_confirmation :: "market_view \<Rightarrow> bool" where
  "has_level_confirmation v =
     (let aa = mv_advanced v in
      if aa_fvgs aa \<noteq> [] \<or> aa_has_imbalances aa \<or> aa_has_stb_zones aa
      then fvg_level_test (mv_current_price v) (py_last_n 2 (aa_fvgs aa))
      else False)"

text \<open>
  Line 471 reads \<^verbatim>\<open>indicators.get('macd', {}).get('signal_type')\<close>; the key is always
  present, so with \<^verbatim>\<open>indicators['macd'] = None\<close> the second \<^verbatim>\<open>get\<close> raises
  \<^verbatim>\<open>AttributeError\<close>.
\<close>

definition confirmation_sources :: "market_view \<Rightarrow> py_error + string list" where
  "confirmation_sources v =
     (let ind = mv_indicators v;
          confirmations = [];
          confirmations = (if mv_candle_signal v \<in> {Some ''bullish'', Some ''bearish''}
                           then confirmations @ [''candle''] else confirmations);
          confirmations = (if has_level_confirmation v
                           then confirmations @ [''level''] else confirmations);
          confirmations = (if order_flow_signal (mv_advanced v) \<noteq> ''neutral''
                           then confirmations @ [''order_flow''] else confirmations);
          confirmations = (if rsi_signal ind \<in> {''oversold'', ''overbought''}
                           then confirmations @ [''indicator''] else confirmations)
      in case macd_signal_type ind of
           None \<Rightarrow> Inl AttributeError
         | Some t \<Rightarrow>
             Inr (if t \<in> {''bullish'', ''bearish''}
                  then confirmations @ [''indicator''] else confirmations))"

subsection \<open>Probability and band: lines 476-550\<close>

definition min_confirmations_required :: nat where
  "min_confirmations_required = 3"

definition signal_quality_bonus :: "string list \<Rightarrow> real" where
  "signal_quality_bonus signals =
     (let quality_bonus = 0;
          quality_bonus = (if \<exists>s \<in> set signals. py_in ''divergence'' s
                           then quality_bonus + 10 else quality_bonus);
          quality_bonus = (if \<exists>s \<in> set signals. py_in ''liquidity_sweep'' s
                           then quality_bonus + 8 else quality_bonus)
      in quality_bonus)"

definition raw_probability_of :: "real \<Rightarrow> real \<Rightarrow> nat \<Rightarrow> real" where
  "raw_probability_of signal_strength quality_bonus confirmation_count =
     (let base_probability = min (\<bar>signal_strength\<bar> * 1.5) 70;
          confirmation_bonus = min (real confirmation_count * 5) 20;
          confirmation_penalty =
            max 0 ((real min_confirmations_required - real confirmation_count) * 10)
      in base_probability + confirmation_bonus + quality_bonus - confirmation_penalty)"

text \<open>
  The probability of each band (lines 504-544).  The source writes the strong and the normal
  formula once for the long and once for the short side; both sides share one definition here.
\<close>

definition strong_band_probability :: "real \<Rightarrow> bool \<Rightarrow> real" where
  "strong_band_probability raw_probability has_enough_confirmations =
     (if has_enough_confirmations then min (60 + raw_probability * 0.4) 92
      else max 35 (min (45 + raw_probability * 0.3) 75))"

definition normal_band_probability :: "real \<Rightarrow> bool \<Rightarrow> real" where
  "normal_band_probability raw_probability has_enough_confirmations =
     (if has_enough_confirmations then min (45 + raw_probability * 0.35) 75
      else max 30 (min (35 + raw_probability * 0.25) 60))"

definition weak_band_probability :: "real \<Rightarrow> bool \<Rightarrow> nat \<Rightarrow> real" where
  "weak_band_probability raw_probability has_enough_confirmations confirmation_count =
     (if has_enough_confirmations then max 30 (min (30 + raw_probability * 0.3) 55)
      else
        (let confirmation_ratio =
               max 0.3 (real confirmation_count / real min_confirmations_required)
         in max 20 (min (25 + raw_probability * 0.2 * confirmation_ratio) 45)))"

text \<open>Lines 546-550: the adjustment for a confirmation shortfall.\<close>

definition shortfall_adjustment :: "bool \<Rightarrow> nat \<Rightarrow> real \<Rightarrow> real" where
  "shortfall_adjustment has_enough_confirmations confirmation_count probability =
     (if \<not> has_enough_confirmations \<and> probability > 0 then
        (let confirmation_ratio =
               max 0.4 (real confirmation_count / real min_confirmations_required)
         in max (probability * confirmation_ratio) 20)
      else probability)"

text \<open>
  The band and the probability for a signal strength, a quality bonus and a confirmation count
  (lines 476-550).
\<close>

definition score_signal :: "real \<Rightarrow> real \<Rightarrow> nat \<Rightarrow> string \<times> real" where
  "score_signal signal_strength quality_bonus confirmation_count =
     (let raw_probability = raw_probability_of signal_strength quality_bonus confirmation_count;
          has_enough_confirmations = (confirmation_count \<ge> min_confirmations_required);
          (final_signal, probability) =
            (if signal_strength > 30 then
               (''strong_long'', strong_band_probability raw_probability has_enough_confirmations)
             else if signal_strength > 15 then
               (''long'', normal_band_probability raw_probability has_enough_confirmations)
             else if signal_strength < - 30 then
               (''strong_short'', strong_band_probability raw_probability has_enough_confirmations)
             else if signal_strength < - 15 then
               (''short'', normal_band_probability raw_probability has_enough_confirmations)
             else if \<bar>signal_strength\<bar> > 5 then
               (if signal_strength > 0 then ''long'' else ''short'',
                weak_band_probability raw_probability has_enough_confirmations confirmation_count)
             else (''neutral'', 0))
      in (final_signal, shortfall_adjustment has_enough_confirmations confirmation_count probability))"

text \<open>
  The analysis dictionary as the later stages read it.  \<open>an_htf_fvgs\<close> is
  \<^verbatim>\<open>analysis['htf_zones']['fvgs']\<close>, filled in by \<^verbatim>\<open>analyze_and_trade\<close>;
  \<open>an_cancellation_reason\<close> is absent until a rule sets it.
\<close>

datatype cancellation = Pool_swept | Fvg_break_without_reaction | Against_trend_4h

record analysis =
  an_view :: market_view
  an_signals :: "string list"
  an_final_signal :: string
  an_probability :: real
  an_confirmation_count :: nat
  an_confirmation_sources :: "string list"
  an_confirmations_required :: nat
  an_htf_fvgs :: "fvg list"
  an_cancellation_reason :: "cancellation option"

definition analyze_market :: "market_view \<Rightarrow> py_error + analysis" where
  "analyze_market v =
     (case collect_votes v of (signals, signal_strength) \<Rightarrow>
        (case confirmation_sources v of
           Inl e \<Rightarrow> Inl e
         | Inr confirmations \<Rightarrow>
             (let confirmation_count = length confirmations;
                  (final_signal, probability) =
                     score_signal signal_strength (signal_quality_bonus signals) confirmation_count
              in Inr \<lparr> an_view = v, an_signals = signals, an_final_signal = final_signal,
                       an_probability = probability, an_confirmation_count = confirmation_count,
                       an_confirmation_sources = confirmations,
                       an_confirmations_required = min_confirmations_required,
                       an_htf_fvgs = [], an_cancellation_reason = None \<rparr>)))"

section \<open>Cancellation rules, trend filter and decision: \<^verbatim>\<open>TradingEngine\<close> (services/trading.py)\<close>

record orderbook =
  ob_bids :: "(real \<times> real) list"
  ob_asks :: "(real \<times> real) list"

definition is_long_signal :: "string \<Rightarrow> bool" where
  "is_long_signal final_signal = (final_signal \<in> {''long'', ''strong_long''})"

definition is_short_signal :: "string \<Rightarrow> bool" where
  "is_short_signal final_signal = (final_signal \<in> {''short'', ''strong_short''})"

subsection \<open>\<^verbatim>\<open>_check_signal_cancellation\<close>\<close>

text \<open>
  Rule 1 for one side of the book: the target pool is set, lies within 0.5 percent of the
  price, and none of the first 20 levels rests within 0.2 percent of it with size above 0.1.
\<close>

definition pool_swept :: "real option \<Rightarrow> real \<Rightarrow> (real \<times> real) list \<Rightarrow> bool" where
  "pool_swept target_pool current_price levels =
     (if truthy target_pool \<and> current_price > 0 then
        (let pool = the target_pool;
             distance_to_pool = \<bar>pool - current_price\<bar> / current_price * 100
         in if distance_to_pool < 0.5 then
              (let pool_has_liquidity =
                     (\<exists>l \<in> set (take 20 levels). \<bar>fst l - pool\<bar> < pool * 0.002 \<and> snd l > 0.1)
               in \<not> pool_has_liquidity)
            else False)
      else False)"

text \<open>Rule 2 for one candle and one gap: a break through the gap with no rejection wick.\<close>

definition breaks_without_reaction :: "string \<Rightarrow> candle \<Rightarrow> fvg \<Rightarrow> bool" where
  "breaks_without_reaction final_signal c g =
     (if fvg_type g = ''bullish_fvg'' then
        (if is_long_signal final_signal \<and> c_low c < zone_start g then
           (let has_reaction = (c_open c - c_low c > (c_open c - c_close c) * 2)
            in \<not> has_reaction)
         else False)
      else if fvg_type g = ''bearish_fvg'' then
        (if is_short_signal final_signal \<and> c_high c > zone_end g then
           (let has_reaction = (c_high c - c_open c > (c_open c - c_close c) * 2)
            in \<not> has_reaction)
         else False)
      else False)"

definition cancel_signal :: "cancellation \<Rightarrow> analysis \<Rightarrow> analysis" where
  "cancel_signal reason a =
     a\<lparr> an_final_signal := ''neutral'', an_probability := 0, an_cancellation_reason := Some reason \<rparr>"

definition check_signal_cancellation :: "analysis \<Rightarrow> candle list \<Rightarrow> orderbook \<Rightarrow> analysis" where
  "check_signal_cancellation a ohlcv book =
     (let final_signal = an_final_signal a in
      if final_signal = ''neutral'' then a
      else
        (let advanced = mv_advanced (an_view a);
             current_price = (if ohlcv \<noteq> [] then c_close (last ohlcv) else 0)
         in if is_long_signal final_signal
               \<and> pool_swept (aa_nearest_pool_above advanced) current_price (ob_asks book)
            then cancel_signal Pool_swept a
            else if is_short_signal final_signal
               \<and> pool_swept (aa_nearest_pool_below advanced) current_price (ob_bids book)
            then cancel_signal Pool_swept a
            else if length ohlcv \<ge> 3
               \<and> (\<exists>c \<in> set (py_last_n 3 ohlcv). \<exists>g \<in> set (py_last_n 2 (an_htf_fvgs a)).
                     breaks_without_reaction final_signal c g)
            then cancel_signal Fvg_break_without_reaction a
            else a))"

subsection \<open>\<^verbatim>\<open>_check_trend_4h\<close>\<close>

text \<open>
  The last 20 closes, their first and last value and the mean of the last nine.  A zero
  divisor raises inside the \<^verbatim>\<open>try\<close> block, and the handler returns \<^verbatim>\<open>None\<close>.
\<close>

definition check_trend_4h :: "candle list \<Rightarrow> string option" where
  "check_trend_4h ohlcv_4h =
     (if ohlcv_4h = [] \<or> length ohlcv_4h < 20 then None
      else
        (let closes = map c_close (py_last_n 20 ohlcv_4h);
             first_price = hd closes;
             last_price = last closes;
             ema_period = 9;
             ema = sum_list (py_last_n ema_period closes) / real ema_period
         in if first_price = 0 \<or> ema = 0 then None
            else
              (let price_change = (last_price - first_price) / first_price * 100;
                   ema_position = (last_price - ema) / ema * 100
               in if price_change > 2 \<and> ema_position > 1 then Some ''bullish''
                  else if price_change < - 2 \<and> ema_position < - 1 then Some ''bearish''
                  else None)))"

subsection \<open>The trend filter of \<^verbatim>\<open>analyze_and_trade\<close>, lines 261-278\<close>

definition trend_penalty :: "cancellation \<Rightarrow> analysis \<Rightarrow> analysis" where
  "trend_penalty reason a =
     (let current_prob = an_probability a;
          a = a\<lparr> an_probability := max 0 (current_prob - 15) \<rparr>
      in if an_probability a < 50
         then a\<lparr> an_final_signal := ''neutral'', an_cancellation_reason := Some reason \<rparr>
         else a)"

definition trend_filter :: "string option \<Rightarrow> analysis \<Rightarrow> analysis" where
  "trend_filter trend_4h a =
     (case trend_4h of
        None \<Rightarrow> a
      | Some trend \<Rightarrow>
          (let final_signal = an_final_signal a in
           if is_long_signal final_signal \<and> trend = ''bearish'' then trend_penalty Against_trend_4h a
           else if is_short_signal final_signal \<and> trend = ''bullish'' then trend_penalty Against_trend_4h a
           else a))"

subsection \<open>\<^verbatim>\<open>_make_decision\<close>\<close>

datatype decision_rule =
    Weak_unconfirmed | Strong_band | Normal_band | Strong_order_flow | Divergence_and_sweep
  | Below_threshold | Signal_cancelled

record decision =
  dc_action :: string
  dc_rule :: decision_rule
  dc_quality_score :: real

definition decision_quality_bonus :: "analysis \<Rightarrow> real" where
  "decision_quality_bonus a =
     (let advanced_analysis = mv_advanced (an_view a);
          signals = aa_signals advanced_analysis;
          long_signals_count = length (filter (\<lambda>s. sg_type s = ''long'') signals);
          short_signals_count = length (filter (\<lambda>s. sg_type s = ''short'') signals);
          has_liquidity_sweep = (length (aa_liquidity_sweeps advanced_analysis) > 0);
          has_divergence = (\<exists>s \<in> set (an_signals a). py_in ''divergence'' s);
          quality_bonus = 0;
          quality_bonus = (if has_liquidity_sweep then quality_bonus + 8 else quality_bonus);
          quality_bonus = (if has_divergence then quality_bonus + 10 else quality_bonus);
          quality_bonus = (if aa_bos advanced_analysis then quality_bonus + 6 else quality_bonus);
          quality_bonus = (if aa_choch advanced_analysis then quality_bonus + 5 else quality_bonus);
          quality_bonus = (if order_flow_strength advanced_analysis > 2.0
                           then quality_bonus + 5 else quality_bonus);
          total_signals = long_signals_count + short_signals_count
      in if total_signals \<ge> 3 then quality_bonus + 7
         else if total_signals \<ge> 2 then quality_bonus + 4
         else quality_bonus)"

definition make_decision :: "analysis \<Rightarrow> decision" where
  "make_decision a =
     (let final_signal = an_final_signal a;
          probability = an_probability a;
          confirmation_count = int (an_confirmation_count a);
          min_confirmations = int (an_confirmations_required a);
          base_min_probability_strong = 55;
          base_min_probability_normal = 60;
          advanced_analysis = mv_advanced (an_view a);
          of_signal = order_flow_signal advanced_analysis;
          of_strength = order_flow_strength advanced_analysis;
          has_liquidity_sweep = (length (aa_liquidity_sweeps advanced_analysis) > 0);
          has_divergence = (\<exists>s \<in> set (an_signals a). py_in ''divergence'' s);
          quality_bonus = decision_quality_bonus a;
          confirmation_penalty = real_of_int (max 0 ((min_confirmations - confirmation_count) * 8));
          min_probability_strong = base_min_probability_strong - quality_bonus + confirmation_penalty;
          min_probability_normal = base_min_probability_normal - quality_bonus + confirmation_penalty;
          min_probability_strong = max 35 min_probability_strong;
          min_probability_normal = max 40 min_probability_normal
      in if confirmation_count < min_confirmations \<and> probability < min_probability_normal
         then \<lparr> dc_action = ''skip'', dc_rule = Weak_unconfirmed, dc_quality_score = quality_bonus \<rparr>
         else
           (let indicators = mv_indicators (an_view a);
                rsi = rsi_signal indicators;
                macd = (case macd_signal_type indicators of None \<Rightarrow> ''neutral'' | Some t \<Rightarrow> t);
                probability =
                  (if is_long_signal final_signal then
                     (if rsi = ''overbought'' \<or> macd = ''bearish''
                      then max (probability * 0.7) 30 else probability)
                   else if is_short_signal final_signal then
                     (if rsi = ''oversold'' \<or> macd = ''bullish''
                      then max (probability * 0.7) 30 else probability)
                   else probability);
                probability =
                  (if volume_ratio indicators < 0.7 then max (probability * 0.85) 25 else probability)
            in if final_signal = ''strong_long'' \<and> probability \<ge> min_probability_strong
               then \<lparr> dc_action = ''open_long'', dc_rule = Strong_band, dc_quality_score = quality_bonus \<rparr>
               else if final_signal = ''strong_short'' \<and> probability \<ge> min_probability_strong
               then \<lparr> dc_action = ''open_short'', dc_rule = Strong_band, dc_quality_score = quality_bonus \<rparr>
               else if final_signal \<in> {''long'', ''short''} \<and> probability \<ge> min_probability_normal
               then \<lparr> dc_action = ''open_'' @ final_signal, dc_rule = Normal_band,
                      dc_quality_score = quality_bonus \<rparr>
               else if of_signal = ''long'' \<and> of_strength \<ge> 2.5 \<and> probability \<ge> 40
               then \<lparr> dc_action = ''open_long'', dc_rule = Strong_order_flow,
                      dc_quality_score = quality_bonus \<rparr>
               else if of_signal = ''short'' \<and> of_strength \<ge> 2.5 \<and> probability \<ge> 40
               then \<lparr> dc_action = ''open_short'', dc_rule = Strong_order_flow,
                      dc_quality_score = quality_bonus \<rparr>
               else if (has_divergence \<and> has_liquidity_sweep) \<and> probability \<ge> 45
               then \<lparr> dc_action = (if final_signal \<noteq> ''neutral'' then ''open_'' @ final_signal else ''skip''),
                      dc_rule = Divergence_and_sweep, dc_quality_score = quality_bonus \<rparr>
               else \<lparr> dc_action = ''skip'', dc_rule = Below_threshold, dc_quality_score = quality_bonus \<rparr>))"

subsection \<open>\<^verbatim>\<open>analyze_and_trade\<close>\<close>

text \<open>
  The exchange responses and the two analyses are the input.  An exception anywhere inside is
  caught by the function's handler, which returns the error with the action \<^verbatim>\<open>skip\<close>: the
  left summand.  A signal cancelled by \<^verbatim>\<open>_check_signal_cancellation\<close> is returned with the
  action \<^verbatim>\<open>skip\<close> before the trend filter runs; a reason set by the trend filter itself is
  not looked at again before \<^verbatim>\<open>_make_decision\<close>.
\<close>

definition analyze_and_trade ::
  "market_view \<Rightarrow> candle list \<Rightarrow> orderbook \<Rightarrow> fvg list \<Rightarrow> candle list \<Rightarrow> py_error + analysis \<times> decision" where
  "analyze_and_trade view_ltf ohlcv_ltf book htf_fvgs ohlcv_4h =
     (case analyze_market view_ltf of
        Inl e \<Rightarrow> Inl e
      | Inr analysis_ltf \<Rightarrow>
          (let trend_4h = (if ohlcv_4h \<noteq> [] \<and> length ohlcv_4h \<ge> 20
                           then check_trend_4h ohlcv_4h else None);
               a = analysis_ltf\<lparr> an_htf_fvgs := htf_fvgs \<rparr>;
               a = check_signal_cancellation a ohlcv_ltf book
           in if an_cancellation_reason a \<noteq> None
              then Inr (a, \<lparr> dc_action = ''skip'', dc_rule = Signal_cancelled, dc_quality_score = 0 \<rparr>)
              else
                (let a = trend_filter trend_4h a
                 in Inr (a, make_decision a))))"

section \<open>Properties of the Signal Fusion Scorer\<close>

subsection \<open>The probability is monotone in the confirmation count\<close>

text \<open>The base probability of line 482, named for the proofs.\<close>

definition base_of :: "real \<Rightarrow> real" where
  "base_of s = min (\<bar>s\<bar> * 1.5) 70"

lemma raw_small: "c < 3 \<Longrightarrow> raw_probability_of s q c = base_of s + q + real c * 15 - 30"
  by (simp add: raw_probability_of_def min_confirmations_required_def Let_def base_of_def)

lemma raw_3: "raw_probability_of s q 3 = base_of s + q + 15"
  by (simp add: raw_probability_of_def min_confirmations_required_def Let_def base_of_def)

lemma raw_big: "4 \<le> c \<Longrightarrow> raw_probability_of s q c = base_of s + q + 20"
  by (simp add: raw_probability_of_def min_confirmations_required_def Let_def base_of_def)

lemma score_strong:
  "30 < \<bar>s\<bar> \<Longrightarrow>
     snd (score_signal s q c) =
       shortfall_adjustment (3 \<le> c) c (strong_band_probability (raw_probability_of s q c) (3 \<le> c))"
  by (auto simp: score_signal_def Let_def min_confirmations_required_def)

lemma score_mid:
  "15 < \<bar>s\<bar> \<Longrightarrow> \<bar>s\<bar> \<le> 30 \<Longrightarrow> 
     snd (score_signal s q c) =
       shortfall_adjustment (3 \<le> c) c (normal_band_probability (raw_probability_of s q c) (3 \<le> c))"
  by (auto simp: score_signal_def Let_def min_confirmations_required_def)

lemma score_weak:
  "5 < \<bar>s\<bar> \<Longrightarrow> \<bar>s\<bar> \<le> 15 \<Longrightarrow>
     snd (score_signal s q c) =
       shortfall_adjustment (3 \<le> c) c (weak_band_probability (raw_probability_of s q c) (3 \<le> c) c)"
  by (auto simp: score_signal_def Let_def min_confirmations_required_def)

lemma score_neutral:
  "\<bar>s\<bar> \<le> 5 \<Longrightarrow> score_signal s q c = (''neutral'', 0)"
  by (auto simp: score_signal_def Let_def min_confirmations_required_def shortfall_adjustment_def)

lemma base_bounds: "0 \<le> base_of s" "base_of s \<le> 70" "30 < \<bar>s\<bar> \<Longrightarrow> 45 < base_of s"
  "15 < \<bar>s\<bar> \<Longrightarrow> 45/2 < base_of s" "5 < \<bar>s\<bar> \<Longrightarrow> 15/2 < base_of s"
  by (auto simp: base_of_def min_def)

lemma shortfall_True: "shortfall_adjustment True c p = p"
  by (simp add: shortfall_adjustment_def)

lemma shortfall_False:
  "0 < p \<Longrightarrow> shortfall_adjustment False c p = max (p * max (2 / 5) (real c / 3)) 20"
  by (simp add: shortfall_adjustment_def min_confirmations_required_def Let_def)

lemma adj_strong:
  "shortfall_adjustment False c (strong_band_probability r False)
     = max (max 35 (min (45 + r * 3 / 10) 75) * max (2 / 5) (real c / 3)) 20"
  by (subst shortfall_False) (simp_all add: strong_band_probability_def)

lemma adj_normal:
  "shortfall_adjustment False c (normal_band_probability r False)
     = max (max 30 (min (35 + r / 4) 60) * max (2 / 5) (real c / 3)) 20"
  by (subst shortfall_False) (simp_all add: normal_band_probability_def)

lemma adj_weak:
  "shortfall_adjustment False c (weak_band_probability r False c)
     = max (max 20 (min (25 + r / 5 * max (3 / 10) (real c / 3)) 45) * max (2 / 5) (real c / 3)) 20"
  by (subst shortfall_False)
     (simp_all add: weak_band_probability_def min_confirmations_required_def Let_def)

lemma strong_True: "strong_band_probability r True = min (60 + r * 2 / 5) 92"
  by (simp add: strong_band_probability_def)

lemma normal_True: "normal_band_probability r True = min (45 + r * 7 / 20) 75"
  by (simp add: normal_band_probability_def)

lemma weak_True: "weak_band_probability r True c = max 30 (min (30 + r * 3 / 10) 55)"
  by (simp add: weak_band_probability_def)

lemma shortfall_ratio_0: "max (2 / 5) (real 0 / 3) = (2/5::real)"
  by simp
lemma shortfall_ratio_1: "max (2 / 5) (real 1 / 3) = (2/5::real)"
  by simp
lemma shortfall_ratio_2: "max (2 / 5) (real 2 / 3) = (2/3::real)"
  by simp
lemma weak_ratio_0: "max (3 / 10) (real 0 / 3) = (3/10::real)"
  by simp
lemma weak_ratio_1: "max (3 / 10) (real 1 / 3) = (1/3::real)"
  by simp
lemma weak_ratio_2: "max (3 / 10) (real 2 / 3) = (2/3::real)"
  by simp

lemma strong_steps:
  assumes "0 \<le> q" "45 < b"
  shows "shortfall_adjustment False 0 (strong_band_probability (b + q - 30) False)
          \<le> shortfall_adjustment False 1 (strong_band_probability (b + q - 15) False)"
    and "shortfall_adjustment False 1 (strong_band_probability (b + q - 15) False)
          \<le> shortfall_adjustment False 2 (strong_band_probability (b + q) False)"
    and "shortfall_adjustment False 2 (strong_band_probability (b + q) False)
          \<le> shortfall_adjustment True 3 (strong_band_probability (b + q + 15) True)"
    and "shortfall_adjustment True c (strong_band_probability (b + q + 15) True)
          \<le> shortfall_adjustment True c' (strong_band_probability (b + q + 20) True)"
  using assms unfolding adj_strong shortfall_True strong_True shortfall_ratio_0 shortfall_ratio_1 shortfall_ratio_2
  by (simp_all add: max_def min_def add_divide_distrib diff_divide_distrib)

lemma normal_steps:
  assumes "0 \<le> q" "45 / 2 < b"
  shows "shortfall_adjustment False 0 (normal_band_probability (b + q - 30) False)
          \<le> shortfall_adjustment False 1 (normal_band_probability (b + q - 15) False)"
    and "shortfall_adjustment False 1 (normal_band_probability (b + q - 15) False)
          \<le> shortfall_adjustment False 2 (normal_band_probability (b + q) False)"
    and "shortfall_adjustment False 2 (normal_band_probability (b + q) False)
          \<le> shortfall_adjustment True 3 (normal_band_probability (b + q + 15) True)"
    and "shortfall_adjustment True c (normal_band_probability (b + q + 15) True)
          \<le> shortfall_adjustment True c' (normal_band_probability (b + q + 20) True)"
  using assms unfolding adj_normal shortfall_True normal_True shortfall_ratio_0 shortfall_ratio_1 shortfall_ratio_2
  by (simp_all add: max_def min_def add_divide_distrib diff_divide_distrib)

lemma weak_steps:
  assumes "0 \<le> q" "15 / 2 < b"
  shows "shortfall_adjustment False 0 (weak_band_probability (b + q - 30) False 0)
          \<le> shortfall_adjustment False 1 (weak_band_probability (b + q - 15) False 1)"
    and "shortfall_adjustment False 1 (weak_band_probability (b + q - 15) False 1)
          \<le> shortfall_adjustment False 2 (weak_band_probability (b + q) False 2)"
    and "shortfall_adjustment False 2 (weak_band_probability (b + q) False 2)
          \<le> shortfall_adjustment True 3 (weak_band_probability (b + q + 15) True 3)"
    and "shortfall_adjustment True c (weak_band_probability (b + q + 15) True c)
          \<le> shortfall_adjustment True c' (weak_band_probability (b + q + 20) True c')"
  using assms unfolding adj_weak shortfall_True weak_True shortfall_ratio_0 shortfall_ratio_1 shortfall_ratio_2 weak_ratio_0 weak_ratio_1 weak_ratio_2
  by (simp_all add: max_def min_def add_divide_distrib diff_divide_distrib)

lemma score_step:
  assumes q: "0 \<le> q"
  shows "snd (score_signal s q c) \<le> snd (score_signal s q (Suc c))"
proof -
  consider "c = 0" | "c = 1" | "c = 2" | "c = 3" | "4 \<le> c"
    by linarith
  note cs = this
  consider (neutral) "\<bar>s\<bar> \<le> 5" | (weak) "5 < \<bar>s\<bar>" "\<bar>s\<bar> \<le> 15"
    | (mid) "15 < \<bar>s\<bar>" "\<bar>s\<bar> \<le> 30" | (strong) "30 < \<bar>s\<bar>"
    by linarith
  then show ?thesis
  proof cases
    case neutral
    then show ?thesis by (simp add: score_neutral)
  next
    case weak
    note st = weak_steps[OF q base_bounds(5)[OF weak(1)]]
    have s01: "snd (score_signal s q 0) \<le> snd (score_signal s q 1)"
      using st(1) by (simp add: score_weak[OF weak] raw_small)
    have s12: "snd (score_signal s q 1) \<le> snd (score_signal s q 2)"
      using st(2) by (simp add: score_weak[OF weak] raw_small)
    have s23: "snd (score_signal s q 2) \<le> snd (score_signal s q 3)"
      using st(3) by (simp add: score_weak[OF weak] raw_small raw_3)
    have s34: "snd (score_signal s q 3) \<le> snd (score_signal s q 4)"
      using st(4)[of 3 4] by (simp add: score_weak[OF weak] raw_3 raw_big)
    have s4: "snd (score_signal s q c) \<le> snd (score_signal s q (Suc c))" if "4 \<le> c"
      using that by (simp add: score_weak[OF weak] raw_big weak_True shortfall_True)
    from cs show ?thesis
    proof cases
      case 1 then show ?thesis using s01 by simp
    next
      case 2 then show ?thesis using s12 by (simp add: numeral_2_eq_2)
    next
      case 3 then show ?thesis using s23 by (simp add: numeral_2_eq_2 numeral_3_eq_3)
    next
      case 4 then show ?thesis using s34 by (simp add: numeral_3_eq_3 eval_nat_numeral)
    next
      case 5 then show ?thesis by (rule s4)
    qed
  next
    case mid
    note st = normal_steps[OF q base_bounds(4)[OF mid(1)]]
    have s01: "snd (score_signal s q 0) \<le> snd (score_signal s q 1)"
      using st(1) by (simp add: score_mid[OF mid] raw_small)
    have s12: "snd (score_signal s q 1) \<le> snd (score_signal s q 2)"
      using st(2) by (simp add: score_mid[OF mid] raw_small)
    have s23: "snd (score_signal s q 2) \<le> snd (score_signal s q 3)"
      using st(3) by (simp add: score_mid[OF mid] raw_small raw_3)
    have s34: "snd (score_signal s q 3) \<le> snd (score_signal s q 4)"
      using st(4)[of 3 4] by (simp add: score_mid[OF mid] raw_3 raw_big)
    have s4: "snd (score_signal s q c) \<le> snd (score_signal s q (Suc c))" if "4 \<le> c"
      using that by (simp add: score_mid[OF mid] raw_big shortfall_True)
    from cs show ?thesis
    proof cases
      case 1 then show ?thesis using s01 by simp
    next
      case 2 then show ?thesis using s12 by (simp add: numeral_2_eq_2)
    next
      case 3 then show ?thesis using s23 by (simp add: numeral_2_eq_2 numeral_3_eq_3)
    next
      case 4 then show ?thesis using s34 by (simp add: numeral_3_eq_3 eval_nat_numeral)
    next
      case 5 then show ?thesis by (rule s4)
    qed
  next
    case strong
    note st = strong_steps[OF q base_bounds(3)[OF strong(1)]]
    have s01: "snd (score_signal s q 0) \<le> snd (score_signal s q 1)"
      using st(1) by (simp add: score_strong[OF strong] raw_small)
    have s12: "snd (score_signal s q 1) \<le> snd (score_signal s q 2)"
      using st(2) by (simp add: score_strong[OF strong] raw_small)
    have s23: "snd (score_signal s q 2) \<le> snd (score_signal s q 3)"
      using st(3) by (simp add: score_strong[OF strong] raw_small raw_3)
    have s34: "snd (score_signal s q 3) \<le> snd (score_signal s q 4)"
      using st(4)[of 3 4] by (simp add: score_strong[OF strong] raw_3 raw_big)
    have s4: "snd (score_signal s q c) \<le> snd (score_signal s q (Suc c))" if "4 \<le> c"
      using that by (simp add: score_strong[OF strong] raw_big shortfall_True)
    from cs show ?thesis
    proof cases
      case 1 then show ?thesis using s01 by simp
    next
      case 2 then show ?thesis using s12 by (simp add: numeral_2_eq_2)
    next
      case 3 then show ?thesis using s23 by (simp add: numeral_2_eq_2 numeral_3_eq_3)
    next
      case 4 then show ?thesis using s34 by (simp add: numeral_3_eq_3 eval_nat_numeral)
    next
      case 5 then show ?thesis by (rule s4)
    qed
  qed
qed

lemma score_signal_mono:
  assumes "0 \<le> q" "c \<le> c'"
  shows "snd (score_signal s q c) \<le> snd (score_signal s q c')"
  by (rule lift_Suc_mono_le[of "\<lambda>c. snd (score_signal s q c)", OF score_step[OF assms(1)] assms(2)])

lemma score_signal_band: "fst (score_signal s q c) = fst (score_signal s q c')"
  by (simp add: score_signal_def Let_def split: prod.splits)

lemma signal_quality_bonus_nonneg: "0 \<le> signal_quality_bonus signals"
  by (simp add: signal_quality_bonus_def Let_def)

subsection \<open>The confirmation count is monotone in the sources\<close>

text \<open>
  The five tests of lines 437-472 in the order of the source: candle pattern, price at a
  fair-value gap, order flow, RSI extreme, MACD side.  Each test that holds appends one entry.
\<close>

definition source_flags :: "market_view \<Rightarrow> bool list" where
  "source_flags v =
     [ mv_candle_signal v \<in> {Some ''bullish'', Some ''bearish''},
       has_level_confirmation v,
       order_flow_signal (mv_advanced v) \<noteq> ''neutral'',
       rsi_signal (mv_indicators v) \<in> {''oversold'', ''overbought''},
       macd_signal_type (mv_indicators v) \<in> {Some ''bullish'', Some ''bearish''} ]"

lemma confirmation_sources_length:
  assumes "confirmation_sources v = Inr cs"
  shows "length cs = length (filter id (source_flags v))"
  using assms
  by (auto simp: confirmation_sources_def source_flags_def Let_def split: option.splits if_splits)

lemma filter_id_mono:
  "list_all2 (\<longrightarrow>) xs ys \<Longrightarrow> length (filter id xs) \<le> length (filter id ys)"
  by (induction rule: list_all2_induct) auto

subsection \<open>Example analyses\<close>

text \<open>
  Four market views.  In \<open>view_a\<close> a bullish candle and a strong bullish order flow meet a
  bearish MACD and a price below VWAP: signal strength 22.5, three confirmations.  In
  \<open>view_b\<close> the candle is bearish too and the order flow stronger: signal strength -15.
  \<open>view_c\<close> and \<open>view_d\<close> are their mirror images.
\<close>

definition view_a :: market_view where
  "view_a =
     \<lparr> mv_current_price = Some 100,
       mv_candle_signal = Some ''bullish'',
       mv_indicators =
         \<lparr> rsi_signal = ''neutral'', macd_signal_type = Some ''bearish'',
           vwap_position = Some ''below'', mfi_signal = None, ichimoku_position = None,
           ema_trend = ''neutral'', volume_ratio = 1 \<rparr>,
       mv_advanced =
         \<lparr> aa_signals = [\<lparr> sg_source = ''order_flow'', sg_type = ''long'', sg_strength = 2.5 \<rparr>],
           aa_order_flow = Some \<lparr> of_direction = ''bullish'', of_strength = 2.5, of_signal = ''long'' \<rparr>,
           aa_liquidity_sweeps = [], aa_fvgs = [], aa_has_imbalances = False,
           aa_has_stb_zones = False, aa_bos = False, aa_choch = False,
           aa_nearest_pool_above = None, aa_nearest_pool_below = None \<rparr>,
       mv_divergence = None \<rparr>"

definition view_b :: market_view where
  "view_b =
     \<lparr> mv_current_price = Some 100,
       mv_candle_signal = Some ''bearish'',
       mv_indicators =
         \<lparr> rsi_signal = ''neutral'', macd_signal_type = Some ''bearish'',
           vwap_position = Some ''below'', mfi_signal = None, ichimoku_position = None,
           ema_trend = ''neutral'', volume_ratio = 1 \<rparr>,
       mv_advanced =
         \<lparr> aa_signals = [\<lparr> sg_source = ''order_flow'', sg_type = ''long'', sg_strength = 3 \<rparr>],
           aa_order_flow = Some \<lparr> of_direction = ''bullish'', of_strength = 3, of_signal = ''long'' \<rparr>,
           aa_liquidity_sweeps = [], aa_fvgs = [], aa_has_imbalances = False,
           aa_has_stb_zones = False, aa_bos = False, aa_choch = False,
           aa_nearest_pool_above = None, aa_nearest_pool_below = None \<rparr>,
       mv_divergence = None \<rparr>"

definition view_c :: market_view where
  "view_c =
     \<lparr> mv_current_price = Some 100,
       mv_candle_signal = Some ''bearish'',
       mv_indicators =
         \<lparr> rsi_signal = ''neutral'', macd_signal_type = Some ''bullish'',
           vwap_position = Some ''above'', mfi_signal = None, ichimoku_position = None,
           ema_trend = ''neutral'', volume_ratio = 1 \<rparr>,
       mv_advanced =
         \<lparr> aa_signals = [\<lparr> sg_source = ''order_flow'', sg_type = ''short'', sg_strength = 2.5 \<rparr>],
           aa_order_flow = Some \<lparr> of_direction = ''bearish'', of_strength = 2.5, of_signal = ''short'' \<rparr>,
           aa_liquidity_sweeps = [], aa_fvgs = [], aa_has_imbalances = False,
           aa_has_stb_zones = False, aa_bos = False, aa_choch = False,
           aa_nearest_pool_above = None, aa_nearest_pool_below = None \<rparr>,
       mv_divergence = None \<rparr>"

definition view_d :: market_view where
  "view_d =
     \<lparr> mv_current_price = Some 100,
       mv_candle_signal = Some ''bullish'',
       mv_indicators =
         \<lparr> rsi_signal = ''neutral'', macd_signal_type = Some ''bullish'',
           vwap_position = Some ''above'', mfi_signal = None, ichimoku_position = None,
           ema_trend = ''neutral'', volume_ratio = 1 \<rparr>,
       mv_advanced =
         \<lparr> aa_signals = [\<lparr> sg_source = ''order_flow'', sg_type = ''short'', sg_strength = 3 \<rparr>],
           aa_order_flow = Some \<lparr> of_direction = ''bearish'', of_strength = 3, of_signal = ''short'' \<rparr>,
           aa_liquidity_sweeps = [], aa_fvgs = [], aa_has_imbalances = False,
           aa_has_stb_zones = False, aa_bos = False, aa_choch = False,
           aa_nearest_pool_above = None, aa_nearest_pool_below = None \<rparr>,
       mv_divergence = None \<rparr>"

text \<open>
  Twenty four-hour candles that close at 100 and then at 90 (a bearish trend by
  \<^verbatim>\<open>_check_trend_4h\<close>) or at 110 (a bullish one), and an order book with no levels.
\<close>

definition close_only :: "real \<Rightarrow> candle" where
  "close_only p = \<lparr> c_time = 0, c_open = p, c_high = p, c_low = p, c_close = p, c_volume = 1 \<rparr>"

definition falling_4h :: "candle list" where
  "falling_4h = replicate 19 (close_only 100) @ [close_only 90]"

definition rising_4h :: "candle list" where
  "rising_4h = replicate 19 (close_only 100) @ [close_only 110]"

definition empty_book :: orderbook where
  "empty_book = \<lparr> ob_bids = [], ob_asks = [] \<rparr>"

text \<open>The analyses \<^verbatim>\<open>analyze_market\<close> computes for the four views.\<close>

definition signals_a :: "string list" where
  "signals_a = [''bullish_candle'', ''macd_bearish'', ''vwap_below'', ''order_flow_long'',
                ''order_flow_bullish'']"

definition signals_b :: "string list" where
  "signals_b = [''bearish_candle'', ''macd_bearish'', ''vwap_below'', ''order_flow_long'',
                ''order_flow_bullish'']"

definition signals_c :: "string list" where
  "signals_c = [''bearish_candle'', ''macd_bullish'', ''vwap_above'', ''order_flow_short'',
                ''order_flow_bearish'']"

definition signals_d :: "string list" where
  "signals_d = [''bullish_candle'', ''macd_bullish'', ''vwap_above'', ''order_flow_short'',
                ''order_flow_bearish'']"

definition scored :: "market_view \<Rightarrow> string list \<Rightarrow> string \<Rightarrow> real \<Rightarrow> analysis" where
  "scored v signals final_signal probability =
     \<lparr> an_view = v, an_signals = signals, an_final_signal = final_signal,
       an_probability = probability, an_confirmation_count = 3,
       an_confirmation_sources = [''candle'', ''order_flow'', ''indicator''],
       an_confirmations_required = 3, an_htf_fvgs = [], an_cancellation_reason = None \<rparr>"

definition against_trend :: "analysis \<Rightarrow> real \<Rightarrow> analysis" where
  "against_trend a probability =
     a\<lparr> an_final_signal := ''neutral'', an_probability := probability,
       an_cancellation_reason := Some Against_trend_4h \<rparr>"

definition order_flow_open :: "string \<Rightarrow> decision" where
  "order_flow_open action = \<lparr> dc_action = action, dc_rule = Strong_order_flow, dc_quality_score = 5 \<rparr>"

lemma check_trend_falling: "check_trend_4h falling_4h = Some ''bearish''"
  by (simp add: check_trend_4h_def falling_4h_def py_last_n_def close_only_def Let_def
        sum_list_replicate hd_append)

lemma check_trend_rising: "check_trend_4h rising_4h = Some ''bullish''"
  by (simp add: check_trend_4h_def rising_4h_def py_last_n_def close_only_def Let_def
        sum_list_replicate hd_append)

lemmas vote_defs = collect_votes_def two_way_vote_def Let_def order_flow_direction_def
  sweep_vote_def divergence_vote_def py_last_n_def

lemma collect_votes_a: "collect_votes view_a = (signals_a, 45 / 2)"
  by (simp add: vote_defs view_a_def signals_a_def)

lemma collect_votes_b: "collect_votes view_b = (signals_b, - 15)"
  by (simp add: vote_defs view_b_def signals_b_def)

lemma collect_votes_c: "collect_votes view_c = (signals_c, - (45 / 2))"
  by (simp add: vote_defs view_c_def signals_c_def)

lemma collect_votes_d: "collect_votes view_d = (signals_d, 15)"
  by (simp add: vote_defs view_d_def signals_d_def)

lemmas source_defs = confirmation_sources_def Let_def has_level_confirmation_def
  order_flow_signal_def

lemma confirmation_sources_examples:
  "confirmation_sources view_a = Inr [''candle'', ''order_flow'', ''indicator'']"
  "confirmation_sources view_b = Inr [''candle'', ''order_flow'', ''indicator'']"
  "confirmation_sources view_c = Inr [''candle'', ''order_flow'', ''indicator'']"
  "confirmation_sources view_d = Inr [''candle'', ''order_flow'', ''indicator'']"
  by (simp_all add: source_defs view_a_def view_b_def view_c_def view_d_def)

lemma signal_quality_bonus_examples:
  "signal_quality_bonus signals_a = 0" "signal_quality_bonus signals_b = 0"
  "signal_quality_bonus signals_c = 0" "signal_quality_bonus signals_d = 0"
  by (simp_all add: signal_quality_bonus_def Let_def signals_a_def signals_b_def signals_c_def
        signals_d_def)

lemmas score_defs = score_signal_def raw_probability_of_def normal_band_probability_def
  weak_band_probability_def strong_band_probability_def shortfall_adjustment_def
  min_confirmations_required_def Let_def

lemma score_examples:
  "score_signal (45 / 2) 0 (Suc (Suc (Suc 0))) = (''long'', 993 / 16)"
  "score_signal (- 15) 0 (Suc (Suc (Suc 0))) = (''short'', 165 / 4)"
  "score_signal (- (45 / 2)) 0 (Suc (Suc (Suc 0))) = (''short'', 993 / 16)"
  "score_signal 15 0 (Suc (Suc (Suc 0))) = (''long'', 165 / 4)"
  "score_signal (45 / 2) 0 (Suc (Suc 0)) = (''long'', 695 / 24)"
  by (simp_all add: score_defs)

lemma analyze_market_examples:
  "analyze_market view_a = Inr (scored view_a signals_a ''long'' (993 / 16))"
  "analyze_market view_b = Inr (scored view_b signals_b ''short'' (165 / 4))"
  "analyze_market view_c = Inr (scored view_c signals_c ''short'' (993 / 16))"
  "analyze_market view_d = Inr (scored view_d signals_d ''long'' (165 / 4))"
  by (simp_all add: analyze_market_def collect_votes_a collect_votes_b collect_votes_c
        collect_votes_d confirmation_sources_examples signal_quality_bonus_examples
        score_examples scored_def min_confirmations_required_def numeral_3_eq_3)

lemma no_cancellation_examples:
  "check_signal_cancellation (scored view_a signals_a ''long'' p) (replicate 50 calm_candle) empty_book
     = scored view_a signals_a ''long'' p"
  "check_signal_cancellation (scored view_b signals_b ''short'' p) (replicate 50 calm_candle) empty_book
     = scored view_b signals_b ''short'' p"
  "check_signal_cancellation (scored view_c signals_c ''short'' p) (replicate 50 calm_candle) empty_book
     = scored view_c signals_c ''short'' p"
  "check_signal_cancellation (scored view_d signals_d ''long'' p) (replicate 50 calm_candle) empty_book
     = scored view_d signals_d ''long'' p"
  by (simp_all add: check_signal_cancellation_def scored_def Let_def is_long_signal_def
        is_short_signal_def pool_swept_def truthy_def view_a_def view_b_def view_c_def view_d_def
        py_last_n_def)

lemma trend_filter_examples:
  "trend_filter (Some ''bearish'') (scored view_a signals_a ''long'' (993 / 16))
     = against_trend (scored view_a signals_a ''long'' (993 / 16)) (753 / 16)"
  "trend_filter (Some ''bullish'') (scored view_c signals_c ''short'' (993 / 16))
     = against_trend (scored view_c signals_c ''short'' (993 / 16)) (753 / 16)"
  "trend_filter None a = a"
  by (simp_all add: trend_filter_def trend_penalty_def scored_def against_trend_def Let_def
        is_long_signal_def is_short_signal_def)

lemmas decision_defs = make_decision_def decision_quality_bonus_def Let_def
  order_flow_signal_def order_flow_strength_def is_long_signal_def is_short_signal_def
  scored_def against_trend_def order_flow_open_def

lemma make_decision_a:
  "make_decision (against_trend (scored view_a signals_a ''long'' (993 / 16)) (753 / 16))
     = order_flow_open ''open_long''"
  by (simp add: decision_defs signals_a_def view_a_def)

lemma make_decision_b:
  "make_decision (scored view_b signals_b ''short'' (165 / 4)) = order_flow_open ''open_long''"
  by (simp add: decision_defs signals_b_def view_b_def)

lemma make_decision_c:
  "make_decision (against_trend (scored view_c signals_c ''short'' (993 / 16)) (753 / 16))
     = order_flow_open ''open_short''"
  by (simp add: decision_defs signals_c_def view_c_def)

lemma make_decision_d:
  "make_decision (scored view_d signals_d ''long'' (165 / 4)) = order_flow_open ''open_short''"
  by (simp add: decision_defs signals_d_def view_d_def)

lemma scored_fields:
  "(scored v sigs f p)\<lparr>an_htf_fvgs := []\<rparr> = scored v sigs f p"
  "an_cancellation_reason (scored v sigs f p) = None"
  by (simp_all add: scored_def)

lemma trend_inputs:
  "falling_4h \<noteq> [] \<and> 20 \<le> length falling_4h" "rising_4h \<noteq> [] \<and> 20 \<le> length rising_4h"
  by (simp_all add: falling_4h_def rising_4h_def)

lemma analyze_and_trade_a:
  "analyze_and_trade view_a (replicate 50 calm_candle) empty_book [] falling_4h =
     Inr (against_trend (scored view_a signals_a ''long'' (993 / 16)) (753 / 16),
          order_flow_open ''open_long'')"
  by (simp add: analyze_and_trade_def analyze_market_examples trend_inputs check_trend_falling
        scored_fields no_cancellation_examples trend_filter_examples make_decision_a Let_def)

lemma analyze_and_trade_b:
  "analyze_and_trade view_b (replicate 50 calm_candle) empty_book [] [] =
     Inr (scored view_b signals_b ''short'' (165 / 4), order_flow_open ''open_long'')"
  by (simp add: analyze_and_trade_def analyze_market_examples
        scored_fields no_cancellation_examples trend_filter_examples make_decision_b Let_def)

lemma analyze_and_trade_c:
  "analyze_and_trade view_c (replicate 50 calm_candle) empty_book [] rising_4h =
     Inr (against_trend (scored view_c signals_c ''short'' (993 / 16)) (753 / 16),
          order_flow_open ''open_short'')"
  by (simp add: analyze_and_trade_def analyze_market_examples trend_inputs check_trend_rising
        scored_fields no_cancellation_examples trend_filter_examples make_decision_c Let_def)

lemma analyze_and_trade_d:
  "analyze_and_trade view_d (replicate 50 calm_candle) empty_book [] [] =
     Inr (scored view_d signals_d ''long'' (165 / 4), order_flow_open ''open_short'')"
  by (simp add: analyze_and_trade_def analyze_market_examples
        scored_fields no_cancellation_examples trend_filter_examples make_decision_d Let_def)

subsection \<open>Claims on the Signal Fusion Scorer and the Decision Engine\<close>

text \<open>
  Claim C7.  Confirmation counting is monotonic.  First: when every source that confirms in
  one view also confirms in another, the confirmation count of the other is at least as
  large, so one more confirming source never lowers the count.  Second: for a fixed signal
  strength and a fixed list of signals (hence a fixed quality bonus) the band does not depend
  on the confirmation count, and the probability is non-decreasing in it, across the boundary
  at three confirmations too.
\<close>

theorem confirmation_counting_monotone:
  "(confirmation_sources v = Inr cs \<and> confirmation_sources v' = Inr cs'
      \<and> list_all2 (\<longrightarrow>) (source_flags v) (source_flags v')
    \<longrightarrow> length cs \<le> length cs')
   \<and> (c \<le> c'
    \<longrightarrow> fst (score_signal s (signal_quality_bonus signals) c)
          = fst (score_signal s (signal_quality_bonus signals) c')
      \<and> snd (score_signal s (signal_quality_bonus signals) c)
          \<le> snd (score_signal s (signal_quality_bonus signals) c'))"
proof (intro conjI impI)
  assume a: "confirmation_sources v = Inr cs \<and> confirmation_sources v' = Inr cs'
      \<and> list_all2 (\<longrightarrow>) (source_flags v) (source_flags v')"
  then have "length cs = length (filter id (source_flags v))"
    and "length cs' = length (filter id (source_flags v'))"
    by (simp_all add: confirmation_sources_length)
  with a show "length cs \<le> length cs'"
    by (simp add: filter_id_mono)
next
  assume "c \<le> c'"
  then show "snd (score_signal s (signal_quality_bonus signals) c)
          \<le> snd (score_signal s (signal_quality_bonus signals) c')"
    by (rule score_signal_mono[OF signal_quality_bonus_nonneg])
next
  show "fst (score_signal s (signal_quality_bonus signals) c)
          = fst (score_signal s (signal_quality_bonus signals) c')"
    by (rule score_signal_band)
qed

lemma confirmation_sources_without_candle:
  "confirmation_sources (view_a\<lparr>mv_candle_signal := None\<rparr>) = Inr [''order_flow'', ''indicator'']"
  by (simp add: source_defs view_a_def)

lemma source_flags_examples:
  "source_flags (view_a\<lparr>mv_candle_signal := None\<rparr>) = [False, False, True, False, True]"
  "source_flags view_a = [True, False, True, False, True]"
  by (simp_all add: source_flags_def has_level_confirmation_def order_flow_signal_def view_a_def)

theorem confirmation_counting_monotone_witness:
  "confirmation_sources (view_a\<lparr>mv_candle_signal := None\<rparr>) = Inr [''order_flow'', ''indicator'']
   \<and> confirmation_sources view_a = Inr [''candle'', ''order_flow'', ''indicator'']
   \<and> list_all2 (\<longrightarrow>) (source_flags (view_a\<lparr>mv_candle_signal := None\<rparr>)) (source_flags view_a)
   \<and> length [''order_flow'', ''indicator''] \<le> length [''candle'', ''order_flow'', ''indicator'']
   \<and> (2::nat) \<le> 3
   \<and> snd (score_signal (45 / 2) (signal_quality_bonus signals_a) 2)
        \<le> snd (score_signal (45 / 2) (signal_quality_bonus signals_a) 3)"
  using confirmation_counting_monotone[of "view_a\<lparr>mv_candle_signal := None\<rparr>"
          "[''order_flow'', ''indicator'']" view_a "[''candle'', ''order_flow'', ''indicator'']"
          2 3 "45 / 2" signals_a]
        confirmation_sources_without_candle confirmation_sources_examples(1)
  by (simp add: source_flags_examples)

text \<open>
  Around claim C6: the scorer itself and the two cancellation rules keep the invariant that a
  neutral signal has probability 0.
\<close>

lemma score_signal_neutral_zero:
  "fst (score_signal s q c) = ''neutral'' \<Longrightarrow> snd (score_signal s q c) = 0"
  by (simp add: score_signal_def Let_def shortfall_adjustment_def split: if_splits)

lemma analyze_market_neutral_zero:
  assumes "analyze_market v = Inr a" "an_final_signal a = ''neutral''"
  shows "an_probability a = 0"
proof -
  obtain signals strength where cv: "collect_votes v = (signals, strength)"
    by (cases "collect_votes v")
  from assms(1) cv obtain cs where cs: "confirmation_sources v = Inr cs"
    by (cases "confirmation_sources v") (simp_all add: analyze_market_def)
  obtain f p where sc: "score_signal strength (signal_quality_bonus signals) (length cs) = (f, p)"
    by (cases "score_signal strength (signal_quality_bonus signals) (length cs)")
  from assms(1) cv cs sc have "an_final_signal a = f" "an_probability a = p"
    by (auto simp: analyze_market_def Let_def)
  with assms(2) score_signal_neutral_zero[of strength "signal_quality_bonus signals" "length cs"] sc
  show ?thesis
    by simp
qed

lemma check_signal_cancellation_neutral_zero:
  assumes "an_final_signal a = ''neutral'' \<longrightarrow> an_probability a = 0"
    and "an_final_signal (check_signal_cancellation a ohlcv book) = ''neutral''"
  shows "an_probability (check_signal_cancellation a ohlcv book) = 0"
  using assms
  by (auto simp: check_signal_cancellation_def cancel_signal_def Let_def split: if_splits)

text \<open>
  The trend filter breaks it: a signal against the four-hour trend whose probability lies
  between 15 and 65 comes out neutral with the reduced, non-zero probability.
\<close>

lemma trend_penalty_leaves_probability:
  assumes "15 < an_probability a" "an_probability a < 65"
  shows "an_final_signal (trend_penalty r a) = ''neutral''
       \<and> an_probability (trend_penalty r a) = an_probability a - 15
       \<and> 0 < an_probability (trend_penalty r a)"
  using assms by (simp add: trend_penalty_def Let_def)

text \<open>
  Claim C6 on the code.  The whole pipeline on \<open>view_a\<close> under a bearish four-hour trend:
  the scorer gives \<^verbatim>\<open>long\<close> with probability 62.0625, no cancellation rule fires, the trend
  filter lowers the probability to 47.0625 and sets the signal to \<^verbatim>\<open>neutral\<close>.  The result
  is neutral with probability 47.0625, where the claim says 0.
\<close>

theorem trend_filter_neutral_nonzero_probability:
  "analyze_and_trade view_a (replicate 50 calm_candle) empty_book [] falling_4h =
     Inr (against_trend (scored view_a signals_a ''long'' (993 / 16)) (753 / 16),
          order_flow_open ''open_long'')
   \<and> an_final_signal (against_trend (scored view_a signals_a ''long'' (993 / 16)) (753 / 16)) = ''neutral''
   \<and> an_probability (against_trend (scored view_a signals_a ''long'' (993 / 16)) (753 / 16)) = 753 / 16
   \<and> an_cancellation_reason (against_trend (scored view_a signals_a ''long'' (993 / 16)) (753 / 16))
        = Some Against_trend_4h"
  using analyze_and_trade_a by (simp add: against_trend_def)

text \<open>
  Claim C9.  The strong-order-flow rule of \<^verbatim>\<open>_make_decision\<close> opens in the direction of the
  order flow without looking at the fused signal.  On \<open>view_a\<close> (and its mirror image
  \<open>view_c\<close>) the signal was set to neutral by the trend filter and the decision is
  \<^verbatim>\<open>open_long\<close> (\<^verbatim>\<open>open_short\<close>); on \<open>view_b\<close> (\<open>view_d\<close>) the fused signal is
  \<^verbatim>\<open>short\<close> (\<^verbatim>\<open>long\<close>) and the decision is \<^verbatim>\<open>open_long\<close> (\<^verbatim>\<open>open_short\<close>).
\<close>

theorem order_flow_rule_ignores_fused_direction:
  "analyze_and_trade view_a (replicate 50 calm_candle) empty_book [] falling_4h =
     Inr (against_trend (scored view_a signals_a ''long'' (993 / 16)) (753 / 16),
          order_flow_open ''open_long'')
   \<and> an_final_signal (against_trend (scored view_a signals_a ''long'' (993 / 16)) (753 / 16)) = ''neutral''
   \<and> analyze_and_trade view_c (replicate 50 calm_candle) empty_book [] rising_4h =
     Inr (against_trend (scored view_c signals_c ''short'' (993 / 16)) (753 / 16),
          order_flow_open ''open_short'')
   \<and> an_final_signal (against_trend (scored view_c signals_c ''short'' (993 / 16)) (753 / 16)) = ''neutral''
   \<and> analyze_and_trade view_b (replicate 50 calm_candle) empty_book [] [] =
     Inr (scored view_b signals_b ''short'' (165 / 4), order_flow_open ''open_long'')
   \<and> an_final_signal (scored view_b signals_b ''short'' (165 / 4)) = ''short''
   \<and> analyze_and_trade view_d (replicate 50 calm_candle) empty_book [] [] =
     Inr (scored view_d signals_d ''long'' (165 / 4), order_flow_open ''open_short'')
   \<and> an_final_signal (scored view_d signals_d ''long'' (165 / 4)) = ''long''
   \<and> dc_action (order_flow_open ''open_long'') = ''open_long''
   \<and> dc_rule (order_flow_open ''open_long'') = Strong_order_flow
   \<and> dc_action (order_flow_open ''open_short'') = ''open_short''
   \<and> dc_rule (order_flow_open ''open_short'') = Strong_order_flow"
  using analyze_and_trade_a analyze_and_trade_b analyze_and_trade_c analyze_and_trade_d
  by (simp add: against_trend_def scored_def order_flow_open_def)

section \<open>Microstructure Analyzer (services/advanced_analysis.py)\<close>

subsection \<open>\<^verbatim>\<open>detect_bos_choch\<close>\<close>

text \<open>Maximum and minimum of a non-empty column, as \<^verbatim>\<open>df['high'].max()\<close> computes them.\<close>

definition column_max :: "real list \<Rightarrow> real" where
  "column_max xs = fold max (tl xs) (hd xs)"

definition column_min :: "real list \<Rightarrow> real" where
  "column_min xs = fold min (tl xs) (hd xs)"






















subsection \<open>\<^verbatim>\<open>analyze_liquidity_pools\<close>\<close>

text \<open>
  The candle columns are NumPy floats, whose division by zero does not raise: it gives
  \<^verbatim>\<open>nan\<close> for \<^verbatim>\<open>0 / 0\<close> and an infinity otherwise.  The exceptional values are made
  explicit where the source divides by the bucket size; \<^verbatim>\<open>int\<close> truncates a finite value
  towards zero and raises on the others.  Finite values are reals: on a series with a
  non-zero range the floats of the source can round a quotient or a tie in the last bit
  differently.
\<close>

datatype np_float = Finite real | NaN | Pos_inf | Neg_inf

definition np_divide :: "real \<Rightarrow> real \<Rightarrow> np_float" where
  "np_divide x y =
     (if y \<noteq> 0 then Finite (x / y)
      else if x = 0 then NaN
      else if x > 0 then Pos_inf
      else Neg_inf)"

definition py_int :: "np_float \<Rightarrow> py_error + int" where
  "py_int v =
     (case v of
        Finite r \<Rightarrow> Inr (if r \<ge> 0 then \<lfloor>r\<rfloor> else \<lceil>r\<rceil>)
      | NaN \<Rightarrow> Inl ValueError
      | Pos_inf \<Rightarrow> Inl OverflowError
      | Neg_inf \<Rightarrow> Inl OverflowError)"

text \<open>\<^verbatim>\<open>round(x, 2)\<close>: to two decimals, ties to the even neighbour.\<close>

definition round_half_even :: "real \<Rightarrow> int" where
  "round_half_even x =
     (let f = \<lfloor>x\<rfloor>; d = x - of_int f
      in if d < 1 / 2 then f else if d > 1 / 2 then f + 1 else if even f then f else f + 1)"

definition py_round2 :: "real \<Rightarrow> real" where
  "py_round2 x = of_int (round_half_even (x * 100)) / 100"

text \<open>
  The volume profile is a dictionary in insertion order: an association list.  A new key
  starts at 0 and the candle's volume is added.
\<close>

fun profile_add :: "real \<Rightarrow> real \<Rightarrow> (real \<times> real) list \<Rightarrow> (real \<times> real) list" where
  "profile_add price_start volume [] = [(price_start, 0 + volume)]"
| "profile_add price_start volume ((k, v) # rest) =
     (if k = price_start then (k, v + volume) # rest
      else (k, v) # profile_add price_start volume rest)"

fun build_volume_profile ::
  "real \<Rightarrow> real \<Rightarrow> candle list \<Rightarrow> (real \<times> real) list \<Rightarrow> py_error + (real \<times> real) list" where
  "build_volume_profile low_min level_size [] volume_profile = Inr volume_profile"
| "build_volume_profile low_min level_size (c # cs) volume_profile =
     (case py_int (np_divide (c_low c - low_min) level_size) of
        Inl e \<Rightarrow> Inl e
      | Inr bucket \<Rightarrow>
          (let price_start = low_min + of_int bucket * level_size;
               price_start = py_round2 price_start
           in build_volume_profile low_min level_size cs
                (profile_add price_start (c_volume c) volume_profile)))"

text \<open>\<^verbatim>\<open>max(volume_profile, key=volume_profile.get)\<close>: the first key of the largest volume.\<close>

fun poc_of :: "(real \<times> real) list \<Rightarrow> real \<times> real" where
  "poc_of [] = (0, 0)"
| "poc_of [kv] = kv"
| "poc_of (kv # rest) = (let best = poc_of rest in if snd kv \<ge> snd best then kv else best)"

record pool_position =
  pp_position :: string
  pp_nearest_pool_below :: "real option"
  pp_nearest_pool_above :: "real option"
  pp_distance_to_poc :: real

definition analyze_pool_position :: "real \<Rightarrow> real \<Rightarrow> real list \<Rightarrow> real list \<Rightarrow> pool_position" where
  "analyze_pool_position current_price poc hvn lvn =
     (let all_levels = sort ([poc] @ hvn @ lvn);
          below_levels = filter (\<lambda>l. l < current_price) all_levels;
          above_levels = filter (\<lambda>l. l > current_price) all_levels;
          nearest_below = (if below_levels \<noteq> [] then Some (column_max below_levels) else None);
          nearest_above = (if above_levels \<noteq> [] then Some (column_min above_levels) else None)
      in \<lparr> pp_position = (if current_price > poc then ''above_poc''
                            else if current_price < poc then ''below_poc'' else ''at_poc''),
           pp_nearest_pool_below = nearest_below,
           pp_nearest_pool_above = nearest_above,
           pp_distance_to_poc = (if poc > 0 then \<bar>current_price - poc\<bar> / poc * 100 else 0) \<rparr>)"

record liquidity_pools =
  lp_poc :: real
  lp_poc_volume :: real
  lp_hvn_levels :: "real list"
  lp_lvn_levels :: "real list"
  lp_volume_profile :: "(real \<times> real) list"
  lp_current_price :: real
  lp_analysis :: pool_position
  lp_nearest_pool_below :: "real option"
  lp_nearest_pool_above :: "real option"

text \<open>
  The result is \<open>Inr None\<close> for the empty dictionary returned on fewer than 10 candles, and
  \<open>Inl\<close> the exception that leaves the function.
\<close>

definition analyze_liquidity_pools :: "candle list \<Rightarrow> py_error + liquidity_pools option" where
  "analyze_liquidity_pools ohlcv =
     (if length ohlcv < 10 then Inr None
      else
        (let low_min = column_min (map c_low ohlcv);
             price_range = column_max (map c_high ohlcv) - low_min;
             num_levels = 20;
             level_size = price_range / num_levels
         in case build_volume_profile low_min level_size ohlcv [] of
              Inl e \<Rightarrow> Inl e
            | Inr volume_profile \<Rightarrow>
                (let (poc_level, poc_volume) = poc_of volume_profile;
                     avg_volume = sum_list (map snd volume_profile) / real (length volume_profile);
                     hvn_levels = map fst (filter (\<lambda>(level, vol). vol > avg_volume * 1.5) volume_profile);
                     lvn_levels = map fst (filter (\<lambda>(level, vol). vol < avg_volume * 0.5) volume_profile);
                     current_price = c_close (last ohlcv);
                     pool_analysis = analyze_pool_position current_price poc_level hvn_levels lvn_levels
                 in Inr (Some \<lparr> lp_poc = poc_level, lp_poc_volume = poc_volume,
                                 lp_hvn_levels = sort hvn_levels, lp_lvn_levels = sort lvn_levels,
                                 lp_volume_profile = volume_profile,
                                 lp_current_price = current_price,
                                 lp_analysis = pool_analysis,
                                 lp_nearest_pool_below = pp_nearest_pool_below pool_analysis,
                                 lp_nearest_pool_above = pp_nearest_pool_above pool_analysis \<rparr>))))"

lemma fold_max_const: "\<forall>x \<in> set xs. x = p \<Longrightarrow> fold max xs p = (p::real)"
  by (induction xs) simp_all

lemma fold_min_const: "\<forall>x \<in> set xs. x = p \<Longrightarrow> fold min xs p = (p::real)"
  by (induction xs) simp_all

lemma column_max_const:
  assumes "xs \<noteq> []" "\<forall>x \<in> set xs. x = p"
  shows "column_max xs = p"
  using assms by (cases xs) (simp_all add: column_max_def fold_max_const)

lemma column_min_const:
  assumes "xs \<noteq> []" "\<forall>x \<in> set xs. x = p"
  shows "column_min xs = p"
  using assms by (cases xs) (simp_all add: column_min_def fold_min_const)

text \<open>
  Claim C10.  On every series of at least 10 candles whose highs and lows all equal one
  price, \<^verbatim>\<open>analyze_liquidity_pools\<close> raises \<^verbatim>\<open>ValueError\<close>: the price range and the bucket
  size are zero, the bucket index of the first candle is \<^verbatim>\<open>0 / 0 = nan\<close>, and \<^verbatim>\<open>int(nan)\<close>
  fails.  No result, empty or not, is returned.
\<close>

theorem liquidity_pools_zero_range_raises:
  assumes "10 \<le> length ohlcv" "\<forall>c \<in> set ohlcv. c_high c = p \<and> c_low c = p"
  shows "analyze_liquidity_pools ohlcv = Inl ValueError"
proof -
  from assms(1) obtain c cs where o: "ohlcv = c # cs"
    by (cases ohlcv) auto
  have ne: "map c_high ohlcv \<noteq> []" "map c_low ohlcv \<noteq> []"
    using o by simp_all
  have hi: "column_max (map c_high ohlcv) = p"
    using assms(2) by (intro column_max_const[OF ne(1)]) auto
  have lo: "column_min (map c_low ohlcv) = p"
    using assms(2) by (intro column_min_const[OF ne(2)]) auto
  have c: "c_low c = p"
    using assms(2) o by simp
  have "build_volume_profile p 0 ohlcv [] = Inl ValueError"
    by (simp add: o c np_divide_def py_int_def)
  with assms(1) show ?thesis
    by (simp add: analyze_liquidity_pools_def hi lo Let_def)
qed

theorem liquidity_pools_zero_range_raises_witness:
  "10 \<le> length (replicate 10 (close_only 100))
   \<and> analyze_liquidity_pools (replicate 10 (close_only 100)) = Inl ValueError"
  using liquidity_pools_zero_range_raises[of "replicate 10 (close_only 100)" 100]
  by (simp add: close_only_def)

text \<open>
  For comparison, a series with a visible range: ten candles from 100 to 103 fall into one
  bucket at 100, which is the point of control.
\<close>

lemma liquidity_pools_wide_series:
  "analyze_liquidity_pools (replicate 10 wide_candle) =
     Inr (Some \<lparr> lp_poc = 100, lp_poc_volume = 10, lp_hvn_levels = [], lp_lvn_levels = [],
                 lp_volume_profile = [(100, 10)], lp_current_price = 100,
                 lp_analysis = \<lparr> pp_position = ''at_poc'', pp_nearest_pool_below = None,
                                  pp_nearest_pool_above = None, pp_distance_to_poc = 0 \<rparr>,
                 lp_nearest_pool_below = None, lp_nearest_pool_above = None \<rparr>)"
proof -
  have r: "py_round2 100 = 100"
    by (simp add: py_round2_def round_half_even_def)
  have b: "build_volume_profile 100 (3 / 20) (replicate n wide_candle) [(100, v)] = Inr [(100, v + real n)]" for n v
    by (induction n arbitrary: v) (simp_all add: wide_candle_def np_divide_def py_int_def r)
  have b0: "build_volume_profile 100 (3 / 20) (replicate 10 wide_candle) [] = Inr [(100, 10)]"
    using b[of 9 1] by (simp add: eval_nat_numeral wide_candle_def np_divide_def py_int_def r)
  have hi: "column_max (map c_high (replicate 10 wide_candle)) = 103"
    by (intro column_max_const) (simp_all add: wide_candle_def)
  have lo: "column_min (map c_low (replicate 10 wide_candle)) = 100"
    by (intro column_min_const) (simp_all add: wide_candle_def)
  have cl: "c_close wide_candle = 100"
    by (simp add: wide_candle_def)
  show ?thesis
    unfolding analyze_liquidity_pools_def Let_def hi lo
    by (simp add: b0 cl analyze_pool_position_def Let_def)
qed

section \<open>Trade store: \<^verbatim>\<open>UserDataManager\<close>, \<^verbatim>\<open>Database\<close> and \<^verbatim>\<open>StatisticsManager\<close>\<close>

text \<open>
  Demo positions live in two places.  With the database in use (the default) they are read
  from the rows of the table \<^verbatim>\<open>trades\<close>; otherwise from the list \<^verbatim>\<open>demo_positions\<close>
  of the account's JSON file.  The JSON file is written in both modes, and the start of the
  bot copies its list into the table.  Every query filters on the account, so the model holds
  the rows and the list of one account.  Points in time are seconds as reals.
\<close>

datatype close_reason = Stop_loss_hit | Take_profit_hit | Forced_by_time | Recommended_by_time

text \<open>
  A position dictionary as the orchestrator writes it and the monitor reads it.  The keys
  \<^verbatim>\<open>entry_time\<close> and \<^verbatim>\<open>timestamp\<close> are \<open>None\<close> when absent.
\<close>

record position =
  p_symbol :: string
  p_direction :: string
  p_amount :: real
  p_entry :: "real option"
  p_stop_loss :: "real option"
  p_take_profit :: "real option"
  p_status :: string
  p_entry_time :: "real option"
  p_timestamp :: "real option"
  p_close_price :: "real option"
  p_close_reason :: "close_reason option"
  p_pnl :: real

text \<open>A row of the table \<^verbatim>\<open>trades\<close>; \<open>t_entry_time\<close> is set by the database on insert.\<close>

record db_trade =
  t_trade_id :: nat
  t_symbol :: string
  t_direction :: string
  t_amount :: real
  t_entry_price :: "real option"
  t_stop_loss :: "real option"
  t_take_profit :: "real option"
  t_status :: string
  t_entry_time :: real
  t_close_price :: "real option"
  t_close_reason :: "close_reason option"
  t_pnl :: real
  t_is_demo :: bool

record store =
  s_use_database :: bool
  s_trades :: "db_trade list"
  s_positions :: "position list"
  s_demo_balance :: real

subsection \<open>\<^verbatim>\<open>Database\<close>\<close>

text \<open>
  \<^verbatim>\<open>get_open_trades\<close>: the open rows, of one symbol if given, newest first
  (\<^verbatim>\<open>ORDER BY entry_time DESC\<close>; rows of equal time keep their insertion order here).
\<close>

definition get_open_trades :: "db_trade list \<Rightarrow> string option \<Rightarrow> db_trade list" where
  "get_open_trades rows symbol =
     sort_key (\<lambda>t. - t_entry_time t)
       (filter (\<lambda>t. t_status t = ''open'' \<and> (case symbol of None \<Rightarrow> True | Some sy \<Rightarrow> t_symbol t = sy)) rows)"

definition update_trade :: "nat \<Rightarrow> (db_trade \<Rightarrow> db_trade) \<Rightarrow> db_trade list \<Rightarrow> db_trade list" where
  "update_trade trade_id updates rows = map (\<lambda>t. if t_trade_id t = trade_id then updates t else t) rows"

definition create_trade :: "real \<Rightarrow> position \<Rightarrow> db_trade list \<Rightarrow> db_trade list" where
  "create_trade now pos rows =
     rows @ [\<lparr> t_trade_id = Suc (fold max (map t_trade_id rows) 0),
               t_symbol = p_symbol pos, t_direction = p_direction pos, t_amount = p_amount pos,
               t_entry_price = p_entry pos, t_stop_loss = p_stop_loss pos,
               t_take_profit = p_take_profit pos, t_status = ''open'', t_entry_time = now,
               t_close_price = None, t_close_reason = None, t_pnl = 0, t_is_demo = True \<rparr>]"

definition close_trade :: "nat \<Rightarrow> real \<Rightarrow> close_reason \<Rightarrow> real \<Rightarrow> db_trade list \<Rightarrow> db_trade list" where
  "close_trade trade_id close_price reason pnl rows =
     update_trade trade_id
       (\<lambda>t. t\<lparr> t_status := ''closed'', t_close_price := Some close_price,
                t_close_reason := Some reason, t_pnl := pnl \<rparr>) rows"



subsection \<open>\<^verbatim>\<open>UserDataManager\<close>\<close>

text \<open>
  \<^verbatim>\<open>get_demo_positions\<close>.  From the database each open demo row becomes a dictionary with
  the keys listed in the source; the row's \<^verbatim>\<open>entry_time\<close> is stored under the key
  \<^verbatim>\<open>timestamp\<close>, and no key \<^verbatim>\<open>entry_time\<close> is written.  From the JSON file the stored
  list is returned as it is.
\<close>

definition position_of_trade :: "db_trade \<Rightarrow> position" where
  "position_of_trade t =
     \<lparr> p_symbol = t_symbol t, p_direction = t_direction t, p_amount = t_amount t,
       p_entry = t_entry_price t, p_stop_loss = t_stop_loss t, p_take_profit = t_take_profit t,
       p_status = t_status t, p_entry_time = None, p_timestamp = Some (t_entry_time t),
       p_close_price = t_close_price t, p_close_reason = t_close_reason t, p_pnl = t_pnl t \<rparr>"

definition get_demo_positions :: "store \<Rightarrow> position list" where
  "get_demo_positions s =
     (if s_use_database s
      then map position_of_trade (filter t_is_demo (get_open_trades (s_trades s) None))
      else s_positions s)"

text \<open>The first list index whose position is open on the symbol.\<close>

fun first_open :: "string \<Rightarrow> position list \<Rightarrow> nat option" where
  "first_open symbol [] = None"
| "first_open symbol (p # ps) =
     (if p_symbol p = symbol \<and> p_status p = ''open'' then Some 0
      else map_option Suc (first_open symbol ps))"

text \<open>
  The list that the second half of \<^verbatim>\<open>save_demo_position\<close> and \<^verbatim>\<open>update_demo_position\<close>
  starts from (\<^verbatim>\<open>get_user_data\<close>).  With the database in use it is the account's row of the
  table \<^verbatim>\<open>users\<close>, which has no column \<^verbatim>\<open>demo_positions\<close>, so the list starts empty;
  the row exists once the account's loop has read its settings.  Otherwise it is the list of
  the JSON file.
\<close>

definition json_demo_positions :: "store \<Rightarrow> position list" where
  "json_demo_positions s = (if s_use_database s then [] else s_positions s)"

text \<open>
  \<^verbatim>\<open>save_demo_position\<close>: if the symbol has an open position it is overwritten with the new
  figures, otherwise the position is added; first in the table when the database is in use
  (lines 191-226), then in the list written to the JSON file (lines 228-247).  Every key of
  the dictionary passed in is set by the caller, so the \<^verbatim>\<open>update\<close> of the JSON half
  replaces the stored dictionary.
\<close>

definition save_demo_position :: "real \<Rightarrow> position \<Rightarrow> store \<Rightarrow> store" where
  "save_demo_position now pos s =
     (let s = (if s_use_database s then
                 (case get_open_trades (s_trades s) (Some (p_symbol pos)) of
                    t # _ \<Rightarrow>
                      s\<lparr> s_trades := update_trade (t_trade_id t)
                             (\<lambda>r. r\<lparr> t_amount := p_amount pos, t_entry_price := p_entry pos,
                                      t_stop_loss := p_stop_loss pos,
                                      t_take_profit := p_take_profit pos \<rparr>)
                             (s_trades s) \<rparr>
                  | [] \<Rightarrow> s\<lparr> s_trades := create_trade now pos (s_trades s) \<rparr>)
               else s);
          demo_positions = json_demo_positions s
      in case first_open (p_symbol pos) demo_positions of
           Some existing_idx \<Rightarrow> s\<lparr> s_positions := demo_positions[existing_idx := pos] \<rparr>
         | None \<Rightarrow> s\<lparr> s_positions := demo_positions @ [pos\<lparr> p_status := ''open'' \<rparr>] \<rparr>)"

text \<open>
  \<^verbatim>\<open>update_demo_position\<close> with the updates of a close: the row of the table when the
  database is in use, then the list written to the JSON file.
\<close>

definition close_position_record :: "string \<Rightarrow> real \<Rightarrow> close_reason \<Rightarrow> real \<Rightarrow> store \<Rightarrow> store" where
  "close_position_record symbol close_price reason pnl s =
     (let s = (if s_use_database s then
                 (case get_open_trades (s_trades s) (Some symbol) of
                    t # _ \<Rightarrow>
                      s\<lparr> s_trades := close_trade (t_trade_id t) close_price reason pnl (s_trades s) \<rparr>
                  | [] \<Rightarrow> s)
               else s);
          demo_positions = json_demo_positions s
      in case first_open symbol demo_positions of
           Some i \<Rightarrow>
             s\<lparr> s_positions := demo_positions
                    [i := (demo_positions ! i)\<lparr> p_status := ''closed'', p_close_price := Some close_price,
                                             p_pnl := pnl, p_close_reason := Some reason \<rparr>] \<rparr>
         | None \<Rightarrow> s\<lparr> s_positions := demo_positions \<rparr>)"

text \<open>
  \<^verbatim>\<open>update_demo_balance\<close>: the settings are read, the balance is set, and the settings are
  written back to the table and to the JSON file; read from the table they carry no list of
  positions.
\<close>

definition update_demo_balance :: "real \<Rightarrow> store \<Rightarrow> store" where
  "update_demo_balance new_balance s =
     s\<lparr> s_demo_balance := new_balance, s_positions := json_demo_positions s \<rparr>"


subsection \<open>\<^verbatim>\<open>StatisticsManager\<close>\<close>

definition add_demo_trade :: "real \<Rightarrow> position \<Rightarrow> store \<Rightarrow> store" where
  "add_demo_trade now trade s =
     save_demo_position now
       (trade\<lparr> p_timestamp := Some now, p_status := ''open'', p_close_price := None \<rparr>) s"

definition get_demo_trades_open :: "store \<Rightarrow> position list" where
  "get_demo_trades_open s = filter (\<lambda>t. p_status t = ''open'') (get_demo_positions s)"

text \<open>
  \<^verbatim>\<open>close_demo_trade\<close>: the last open position of the symbol gives entry, amount and
  direction; the result says whether a position was found.
\<close>

definition close_demo_trade :: "string \<Rightarrow> real \<Rightarrow> close_reason \<Rightarrow> store \<Rightarrow> bool \<times> store" where
  "close_demo_trade symbol close_price reason s =
     (case filter (\<lambda>t. p_symbol t = symbol \<and> p_status t = ''open'') (rev (get_demo_positions s)) of
        [] \<Rightarrow> (False, s)
      | trade_to_close # _ \<Rightarrow>
          (let entry = (if truthy (p_entry trade_to_close) then the (p_entry trade_to_close)
                        else close_price);
               amount = p_amount trade_to_close;
               pnl = (if p_direction trade_to_close = ''long'' then (close_price - entry) * amount
                      else (entry - close_price) * amount);
               s = close_position_record symbol close_price reason pnl s;
               current_balance = s_demo_balance s;
               new_balance = current_balance + pnl
           in (True, update_demo_balance new_balance s)))"

section \<open>Position Monitor: \<^verbatim>\<open>AutoTradingManager._monitor_positions\<close> (services/auto_trading.py)\<close>

text \<open>The account settings the two loops read, with their defaults applied.\<close>

record user_data =
  auto_trading_enabled :: bool
  has_api_keys :: bool
  is_demo_mode :: bool
  demo_balance :: real
  max_drawdown_percent :: real
  max_open_positions :: nat
  max_holding_minutes :: real
  force_close_minutes :: real
  sl_cooldown_minutes :: real
  atr_min_percent :: real

text \<open>
  Lines 844-867: the holding time in minutes and the time-based close it asks for.  An entry
  time that is absent or cannot be parsed leaves the holding time at 0.
\<close>

definition holding_check :: "user_data \<Rightarrow> real \<Rightarrow> real option \<Rightarrow> real \<times> close_reason option" where
  "holding_check data now entry_time =
     (case entry_time of
        None \<Rightarrow> (0, None)
      | Some entry_dt \<Rightarrow>
          (let holding_time_minutes = (now - entry_dt) / 60 in
           if holding_time_minutes \<ge> force_close_minutes data
           then (holding_time_minutes, Some Forced_by_time)
           else if holding_time_minutes \<ge> max_holding_minutes data
           then (holding_time_minutes, Some Recommended_by_time)
           else (holding_time_minutes, None)))"

text \<open>Lines 876-893: the stop or target hit at the current price.\<close>

definition price_hit :: "position \<Rightarrow> real \<Rightarrow> close_reason option" where
  "price_hit trade current_price =
     (let stop_loss = p_stop_loss trade; take_profit = p_take_profit trade in
      if p_direction trade = ''long'' then
        (if truthy stop_loss \<and> current_price \<le> the stop_loss then Some Stop_loss_hit
         else if truthy take_profit \<and> current_price \<ge> the take_profit then Some Take_profit_hit
         else None)
      else
        (if truthy stop_loss \<and> current_price \<ge> the stop_loss then Some Stop_loss_hit
         else if truthy take_profit \<and> current_price \<le> the take_profit then Some Take_profit_hit
         else None))"

datatype monitor_outcome = Skipped | Kept | Closed real close_reason

text \<open>
  The body of the loop for one position.  \<open>ticker_last\<close> is the \<^verbatim>\<open>last\<close> price of the
  ticker, \<open>None\<close> when the call raises or gives no price.
\<close>

definition monitor_trade :: "user_data \<Rightarrow> real \<Rightarrow> real option \<Rightarrow> position \<Rightarrow> monitor_outcome" where
  "monitor_trade data now ticker_last trade =
     (if \<not> (p_status trade = ''open'' \<and> p_close_price trade = None) then Skipped
      else if \<not> truthy (p_entry trade)
              \<or> (\<not> truthy (p_stop_loss trade) \<and> \<not> truthy (p_take_profit trade)) then Skipped
      else
        (case holding_check data now (p_entry_time trade) of
           (holding_time_minutes, time_close_reason) \<Rightarrow>
             if \<not> truthy ticker_last then Skipped
             else
               (let current_price = the ticker_last;
                    should_close_time = (time_close_reason \<noteq> None);
                    close_reason = price_hit trade current_price;
                    close_reason =
                      (if should_close_time \<and> holding_time_minutes \<ge> force_close_minutes data
                       then time_close_reason
                       else if should_close_time \<and> close_reason = None then time_close_reason
                       else close_reason)
                in case close_reason of
                     Some reason \<Rightarrow> Closed current_price reason
                   | None \<Rightarrow> Kept)))"

text \<open>
  One tick.  In demo mode the open positions read at the start are walked through; a close
  goes to the store, and a stop-loss close starts the cooldown of the symbol.  For a live
  account the exchange positions are only logged.  The result also lists the closes made.
\<close>

type_synonym cooldowns = "string \<rightharpoonup> real"

fun monitor_walk ::
  "user_data \<Rightarrow> real \<Rightarrow> (string \<Rightarrow> real option) \<Rightarrow> position list
     \<Rightarrow> store \<times> cooldowns \<times> (string \<times> real \<times> close_reason) list
     \<Rightarrow> store \<times> cooldowns \<times> (string \<times> real \<times> close_reason) list" where
  "monitor_walk data now ticker [] st = st"
| "monitor_walk data now ticker (trade # rest) (s, cd, closes) =
     monitor_walk data now ticker rest
       (case monitor_trade data now (ticker (p_symbol trade)) trade of
          Closed current_price reason \<Rightarrow>
            (snd (close_demo_trade (p_symbol trade) current_price reason s),
             (if reason = Stop_loss_hit then cd(p_symbol trade \<mapsto> now) else cd),
             closes @ [(p_symbol trade, current_price, reason)])
        | _ \<Rightarrow> (s, cd, closes))"

definition monitor_positions ::
  "user_data \<Rightarrow> real \<Rightarrow> (string \<Rightarrow> real option) \<Rightarrow> (string \<times> real) list option
     \<Rightarrow> store \<times> cooldowns \<Rightarrow> store \<times> cooldowns \<times> (string \<times> real \<times> close_reason) list" where
  "monitor_positions data now ticker exchange_positions st =
     (case st of (s, cd) \<Rightarrow>
        if is_demo_mode data
        then monitor_walk data now ticker (get_demo_trades_open s) (s, cd, [])
        else (s, cd, []))"

section \<open>Double-precision arithmetic\<close>

text \<open>
  Python's \<^verbatim>\<open>float\<close> is the IEEE 754 binary64 format: each operation returns the exact
  result rounded to the nearest number with a 53-bit significand, ties to the even
  significand.  The numbers are reals here and \<open>py_float\<close> is that rounding.  The bounds of
  the exponent and the special values are left out: the drawdown computed with it below
  divides by 10000 before it multiplies by 100, so it neither overflows nor leaves the normal
  range on a finite balance.
\<close>

definition pow2 :: "int \<Rightarrow> real" where
  "pow2 e = (if 0 \<le> e then 2 ^ nat e else 1 / 2 ^ nat (- e))"

text \<open>The binary exponent \<open>e\<close> of a positive number: \<open>2\<^sup>e \<le> x < 2\<^sup>e\<^sup>+\<^sup>1\<close>.\<close>

function exponent_up :: "real \<Rightarrow> int" where
  "exponent_up x = (if x < 2 then 0 else exponent_up (x / 2) + 1)"
  by auto
termination
proof (relation "measure (\<lambda>x. nat \<lfloor>x\<rfloor>)")
  fix x :: real
  assume "\<not> x < 2"
  then have "\<lfloor>x / 2\<rfloor> < \<lfloor>x\<rfloor>" "0 < \<lfloor>x\<rfloor>"
    by linarith+
  then show "(x / 2, x) \<in> measure (\<lambda>x. nat \<lfloor>x\<rfloor>)"
    by simp
qed simp

function exponent_down :: "real \<Rightarrow> int" where
  "exponent_down x = (if x \<le> 0 \<or> 1 \<le> x then 0 else exponent_down (x * 2) - 1)"
  by auto
termination
proof (relation "measure (\<lambda>x. nat \<lceil>1 / x\<rceil>)")
  fix x :: real
  assume "\<not> (x \<le> 0 \<or> 1 \<le> x)"
  then have x: "0 < x" "x < 1"
    by simp_all
  then have y: "1 < 1 / x"
    by simp
  have h: "\<lceil>y / 2\<rceil> < \<lceil>y\<rceil> \<and> 0 < \<lceil>y\<rceil>" if "1 < y" for y :: real
  proof -
    from that have c: "2 \<le> \<lceil>y\<rceil>"
      by (simp add: less_ceiling_iff flip: zless_iff_Suc_zadd)
    then have "2 \<le> real_of_int \<lceil>y\<rceil>"
      by linarith
    moreover have "y \<le> real_of_int \<lceil>y\<rceil>"
      by (rule le_of_int_ceiling)
    ultimately have "y / 2 \<le> real_of_int \<lceil>y\<rceil> - 1"
      by linarith
    then have "\<lceil>y / 2\<rceil> < \<lceil>y\<rceil>"
      by (simp add: ceiling_less_iff)
    with c show ?thesis
      by simp
  qed
  have e: "1 / (x * 2) = (1 / x) / 2"
    by simp
  from h[OF y] have "nat \<lceil>1 / x / 2\<rceil> < nat \<lceil>1 / x\<rceil>"
    by linarith
  then have "nat \<lceil>1 / (x * 2)\<rceil> < nat \<lceil>1 / x\<rceil>"
    unfolding e .
  then show "(x * 2, x) \<in> measure (\<lambda>x. nat \<lceil>1 / x\<rceil>)"
    unfolding in_measure .
qed simp

declare exponent_up.simps [simp del] exponent_down.simps [simp del]

definition float_exponent :: "real \<Rightarrow> int" where
  "float_exponent x = (if 1 \<le> x then exponent_up x else exponent_down x)"

definition py_float :: "real \<Rightarrow> real" where
  "py_float x =
     (if x = 0 then 0
      else
        (let e = float_exponent \<bar>x\<bar> - 52;
             m = round_half_even (\<bar>x\<bar> / pow2 e)
         in sgn x * of_int m * pow2 e))"

subsection \<open>Evaluating the rounding\<close>

lemma pow2_pos: "0 < pow2 e"
  by (simp add: pow2_def)

lemma pow2_Suc: "pow2 (e + 1) = 2 * pow2 e"
proof -
  consider "0 \<le> e" | "e = - 1" | "e < - 1"
    by linarith
  then show ?thesis
  proof cases
    case 1
    then show ?thesis
      by (simp add: pow2_def nat_add_distrib)
  next
    case 2
    then show ?thesis
      by (simp add: pow2_def)
  next
    case 3
    then have "nat (- e) = Suc (nat (- (e + 1)))"
      by simp
    with 3 show ?thesis
      by (simp add: pow2_def)
  qed
qed

lemma exponent_up_eq:
  "2 ^ n \<le> x \<Longrightarrow> x < 2 ^ Suc n \<Longrightarrow> exponent_up x = int n"
proof (induction n arbitrary: x)
  case 0
  then show ?case
    by (simp add: exponent_up.simps[of x])
next
  case (Suc n)
  from Suc.prems have "2 ^ n \<le> x / 2" "x / 2 < 2 ^ Suc n"
    by simp_all
  from Suc.IH[OF this] have "exponent_up (x / 2) = int n" .
  moreover have "2 \<le> x"
  proof -
    have "(2::real) \<le> 2 ^ Suc n"
      using one_le_power[of "2::real" n] by simp
    with Suc.prems(1) show ?thesis
      by linarith
  qed
  ultimately show ?case
    by (simp add: exponent_up.simps[of x])
qed

lemma exponent_down_eq:
  "0 < x \<Longrightarrow> 1 \<le> x * 2 ^ n \<Longrightarrow> x * 2 ^ n < 2 \<Longrightarrow> exponent_down x = - int n"
proof (induction n arbitrary: x)
  case 0
  then show ?case
    by (simp add: exponent_down.simps[of x])
next
  case (Suc n)
  from Suc.prems have "0 < x * 2" "1 \<le> x * 2 * 2 ^ n" "x * 2 * 2 ^ n < 2"
    by (simp_all add: mult.assoc)
  from Suc.IH[OF this] have "exponent_down (x * 2) = - int n" .
  moreover have "x < 1"
  proof -
    have "(1::real) \<le> 2 ^ n"
      by (rule one_le_power) simp
    with Suc.prems(1) have "x * 1 \<le> x * 2 ^ n"
      by (intro mult_left_mono) simp_all
    with Suc.prems(3) show ?thesis
      by simp
  qed
  ultimately show ?case
    using Suc.prems(1) by (simp add: exponent_down.simps[of x])
qed

lemma float_exponent_eq:
  assumes "pow2 e \<le> x" "x < pow2 (e + 1)"
  shows "float_exponent x = e"
proof (cases "0 \<le> e")
  case True
  with assms have "2 ^ nat e \<le> x" "x < 2 ^ Suc (nat e)"
    by (simp_all add: pow2_def nat_add_distrib)
  have "(1::real) \<le> 2 ^ nat e"
    by (rule one_le_power) simp
  with \<open>2 ^ nat e \<le> x\<close> have "1 \<le> x"
    by linarith
  with exponent_up_eq[OF \<open>2 ^ nat e \<le> x\<close> \<open>x < 2 ^ Suc (nat e)\<close>] True
  show ?thesis
    by (simp add: float_exponent_def)
next
  case False
  from pow2_pos[of e] assms(1) have x: "0 < x"
    by linarith
  from False have p: "pow2 e = 1 / 2 ^ nat (- e)"
    by (simp add: pow2_def)
  from assms(1) have a: "1 \<le> x * 2 ^ nat (- e)"
    by (simp add: p field_simps)
  from assms(2) have "x < 2 * pow2 e"
    unfolding pow2_Suc .
  then have b: "x * 2 ^ nat (- e) < 2"
    by (simp add: p field_simps)
  have "x < 1"
  proof -
    have "(1::real) \<le> 2 ^ nat (- e)"
      by (rule one_le_power) simp
    with x have "x * 1 \<le> x * 2 ^ nat (- e)"
      by (intro mult_left_mono) simp_all
    with b False have "x < 2"
      by simp
    have "pow2 (e + 1) \<le> 1"
      using False by (simp add: pow2_def not_le)
    with assms(2) show ?thesis
      by linarith
  qed
  with exponent_down_eq[OF x a b] False show ?thesis
    by (simp add: float_exponent_def)
qed

lemma py_float_eq:
  assumes "pow2 e \<le> \<bar>x\<bar>" "\<bar>x\<bar> < pow2 (e + 1)"
  shows "py_float x = sgn x * of_int (round_half_even (\<bar>x\<bar> / pow2 (e - 52))) * pow2 (e - 52)"
proof -
  from pow2_pos[of e] assms(1) have "x \<noteq> 0"
    by auto
  with float_exponent_eq[OF assms] show ?thesis
    by (simp add: py_float_def Let_def)
qed

subsection \<open>The rounding error\<close>

lemma round_half_even_error: "\<bar>real_of_int (round_half_even y) - y\<bar> \<le> 1 / 2"
  unfolding round_half_even_def Let_def by (auto simp: abs_le_iff)

lemma pow2_diff: "pow2 (e - int n) = pow2 e / 2 ^ n"
proof (induction n)
  case 0
  show ?case
    by simp
next
  case (Suc n)
  have "pow2 (e - int n) = 2 * pow2 (e - int (Suc n))"
    using pow2_Suc[of "e - int (Suc n)"] by (simp add: algebra_simps)
  with Suc show ?case
    by simp
qed

lemma exponent_up_bounds:
  "1 \<le> x \<Longrightarrow> pow2 (exponent_up x) \<le> x \<and> x < pow2 (exponent_up x + 1)"
proof (induction x rule: exponent_up.induct)
  case (1 x)
  show ?case
  proof (cases "x < 2")
    case True
    with 1(2) show ?thesis
      by (simp add: exponent_up.simps[of x] pow2_def)
  next
    case False
    then have "1 \<le> x / 2"
      by simp
    from 1(1)[OF False this]
    have "pow2 (exponent_up (x / 2)) \<le> x / 2" "x / 2 < pow2 (exponent_up (x / 2) + 1)"
      by simp_all
    then have "pow2 (exponent_up (x / 2) + 1) \<le> x" "x < pow2 (exponent_up (x / 2) + 1 + 1)"
      unfolding pow2_Suc by linarith+
    moreover have "exponent_up x = exponent_up (x / 2) + 1"
      using False by (simp add: exponent_up.simps[of x])
    ultimately show ?thesis
      by simp
  qed
qed

lemma exponent_down_bounds:
  "0 < x \<Longrightarrow> x < 2 \<Longrightarrow> pow2 (exponent_down x) \<le> x \<and> x < pow2 (exponent_down x + 1)"
proof (induction x rule: exponent_down.induct)
  case (1 x)
  show ?case
  proof (cases "1 \<le> x")
    case True
    with 1(3) show ?thesis
      by (simp add: exponent_down.simps[of x] pow2_def)
  next
    case False
    with 1(2) have c: "\<not> (x \<le> 0 \<or> 1 \<le> x)" "0 < x * 2" "x * 2 < 2"
      by simp_all
    from 1(1)[OF this]
    have "pow2 (exponent_down (x * 2)) \<le> x * 2" "x * 2 < pow2 (exponent_down (x * 2) + 1)"
      by simp_all
    then have "pow2 (exponent_down (x * 2)) \<le> x * 2" "x < pow2 (exponent_down (x * 2))"
      unfolding pow2_Suc by linarith+
    moreover have "pow2 (exponent_down (x * 2)) = 2 * pow2 (exponent_down (x * 2) - 1)"
      using pow2_Suc[of "exponent_down (x * 2) - 1"] by simp
    ultimately have "pow2 (exponent_down (x * 2) - 1) \<le> x"
        "x < pow2 (exponent_down (x * 2) - 1 + 1)"
      by simp_all
    moreover have "exponent_down x = exponent_down (x * 2) - 1"
      using c(1) by (simp add: exponent_down.simps[of x])
    ultimately show ?thesis
      by simp
  qed
qed

lemma float_exponent_bounds:
  assumes "0 < x"
  shows "pow2 (float_exponent x) \<le> x" "x < pow2 (float_exponent x + 1)"
  using assms exponent_up_bounds[of x] exponent_down_bounds[of x]
  by (auto simp: float_exponent_def)

lemma py_float_error: "\<bar>py_float x - x\<bar> \<le> \<bar>x\<bar> / 2 ^ 53"
proof (cases "x = 0")
  case True
  then show ?thesis
    by (simp add: py_float_def)
next
  case False
  define a where "a = \<bar>x\<bar>"
  define p where "p = pow2 (float_exponent a - 52)"
  define m where "m = real_of_int (round_half_even (a / p))"
  from False have a: "0 < a"
    by (simp add: a_def)
  have p: "0 < p"
    by (simp add: p_def pow2_pos)
  have "p = pow2 (float_exponent a) / 2 ^ 52"
    using pow2_diff[of "float_exponent a" 52] by (simp add: p_def)
  with float_exponent_bounds(1)[OF a] have pa: "p * 2 ^ 52 \<le> a"
    by simp
  have "\<bar>m - a / p\<bar> \<le> 1 / 2"
    unfolding m_def by (rule round_half_even_error)
  then have "\<bar>m - a / p\<bar> * p \<le> 1 / 2 * p"
    using p by (intro mult_right_mono) simp_all
  moreover have "\<bar>m - a / p\<bar> * p = \<bar>m * p - a\<bar>"
  proof -
    have "(m - a / p) * p = m * p - a"
      using p by (simp add: field_simps)
    moreover have "\<bar>m - a / p\<bar> * p = \<bar>(m - a / p) * p\<bar>"
      using p by (simp add: abs_mult)
    ultimately show ?thesis
      by simp
  qed
  ultimately have e: "\<bar>m * p - a\<bar> \<le> p / 2"
    by simp
  have "py_float x = sgn x * m * p"
    using False by (simp add: py_float_def Let_def a_def p_def m_def)
  moreover have "x = sgn x * a"
    by (simp add: a_def sgn_mult_abs)
  ultimately have "py_float x - x = sgn x * (m * p - a)"
    by (metis mult.assoc right_diff_distrib)
  then have "\<bar>py_float x - x\<bar> = \<bar>m * p - a\<bar>"
    using False by (simp add: abs_mult abs_sgn_eq)
  with e pa show ?thesis
    unfolding a_def[symmetric] by simp
qed

section \<open>Account Orchestrator: \<^verbatim>\<open>AutoTradingManager\<close> (services/auto_trading.py)\<close>

subsection \<open>The head of one scan cycle, lines 66-129\<close>

definition SCALPING_BLOCKED_HOURS :: "nat set" where
  "SCALPING_BLOCKED_HOURS = {6, 11}"

definition SCALPING_BLOCKED_WEEKDAYS :: "nat set" where
  "SCALPING_BLOCKED_WEEKDAYS = {0}"

text \<open>
  What the head of a cycle does: leave the loop because trading was switched off, wait for
  credentials, wait out a blocked hour or weekday, leave the loop on the drawdown stop, or go
  on to scan the pairs.
\<close>

datatype cycle_head = Loop_stopped | Wait_for_api | Wait_blocked_time | Drawdown_stop real | Scan_pairs

text \<open>
  Line 111: the drawdown in percent, three double-precision operations in the order the
  interpreter makes them.
\<close>

definition drawdown_percent :: "real \<Rightarrow> real \<Rightarrow> real" where
  "drawdown_percent initial_balance current_balance =
     (if initial_balance > 0
      then py_float (py_float (py_float (initial_balance - current_balance) / initial_balance) * 100)
      else 0)"

text \<open>
  The drawdown is computed in demo mode only, from the stored demo balance and the fixed
  initial balance 10000; the stop writes \<^verbatim>\<open>auto_trading_enabled = False\<close> and breaks out of
  the loop.
\<close>

definition cycle_head :: "nat \<Rightarrow> nat \<Rightarrow> user_data \<Rightarrow> cycle_head \<times> user_data" where
  "cycle_head current_hour current_weekday data =
     (if \<not> auto_trading_enabled data then (Loop_stopped, data)
      else if \<not> has_api_keys data then (Wait_for_api, data)
      else if current_hour \<in> SCALPING_BLOCKED_HOURS \<or> current_weekday \<in> SCALPING_BLOCKED_WEEKDAYS
      then (Wait_blocked_time, data)
      else if is_demo_mode data then
        (let initial_balance = 10000.0;
             current_balance = demo_balance data;
             drawdown = drawdown_percent initial_balance current_balance
         in if drawdown > max_drawdown_percent data
            then (Drawdown_stop drawdown, data\<lparr> auto_trading_enabled := False \<rparr>)
            else (Scan_pairs, data))
      else (Scan_pairs, data))"

subsection \<open>\<^verbatim>\<open>_analyze_and_trade\<close>\<close>

record recommendation =
  rec_entry :: "real option"
  rec_stop_loss :: "real option"
  rec_take_profit :: "real option"

text \<open>
  What the exchange and the analysis answer during one call: the position list (\<open>None\<close> when
  the call raises), the recommendation of the analysis, the current price after the ticker
  fallback of lines 429-445 (0 when there is none), the candles the calibrator fetches
  (\<open>None\<close> when the call raises), the ticker price a demo trade is filled at, and the price of
  the live order (\<open>None\<close> when placing it fails).
\<close>

record open_env =
  oe_positions :: "(string \<times> real) list option"
  oe_recommendation :: "recommendation option"
  oe_current_price :: real
  oe_ohlcv :: "candle list option"
  oe_demo_price :: real
  oe_order_price :: "real option option"

datatype open_outcome =
    In_cooldown | No_open_action | Limit_reached | Already_open | Low_volatility | Entry_zero
  | Open_error | Amount_too_small | Order_failed | Opened position

text \<open>
  Lines 390-418: the look at existing positions.  It is made for a live account only, and a
  failure to fetch the list lets the opening go on.
\<close>

definition position_guard :: "user_data \<Rightarrow> string \<Rightarrow> (string \<times> real) list option \<Rightarrow> open_outcome option" where
  "position_guard data symbol positions =
     (if \<not> is_demo_mode data then
        (case positions of
           None \<Rightarrow> None
         | Some ps \<Rightarrow>
             (let open_positions = filter (\<lambda>p. snd p \<noteq> 0) ps in
              if length open_positions \<ge> max_open_positions data then Some Limit_reached
              else if \<exists>pos \<in> set open_positions. fst pos = symbol then Some Already_open
              else None))
      else None)"

text \<open>\<^verbatim>\<open>round(x, 3)\<close>: to three decimals, ties to the even neighbour.\<close>

definition py_round3 :: "real \<Rightarrow> real" where
  "py_round3 x = of_int (round_half_even (x * 1000)) / 1000"

text \<open>
  Lines 420-591: levels, size and order.  The volatility filter reads the calibrator's
  \<^verbatim>\<open>meta['atr_pct']\<close>, which is \<^verbatim>\<open>atr_pct\<close> rounded to three decimals, 0 when
  the calibrator gave no levels.  A stop or target that is still \<^verbatim>\<open>None\<close> makes the log
  line of lines 528-535 raise, which the handler of line 632 turns into no opening.  The entry
  is positive once the size is computed, so the recorded entry price is the fill price when
  that is set and the entry otherwise.
\<close>

definition open_decision ::
  "user_data \<Rightarrow> real \<Rightarrow> string \<Rightarrow> string \<Rightarrow> open_env \<Rightarrow> open_outcome" where
  "open_decision data now symbol action env =
     (let is_demo = is_demo_mode data;
          current_price = oe_current_price env;
          (entry, stop_loss, take_profit) =
            (case oe_recommendation env of
               Some r \<Rightarrow> (rec_entry r, rec_stop_loss r, rec_take_profit r)
             | None \<Rightarrow> (Some current_price, None, None));
          direction = (if py_in ''long'' action then ''long'' else ''short'');
          levels = (case (entry, oe_ohlcv env) of
                      (Some e, Some ohlcv) \<Rightarrow> Some (calculate_scalping_sl_tp e direction ohlcv)
                    | _ \<Rightarrow> None);
          atr_pct = (case levels of Some (Inr lv) \<Rightarrow> py_round3 (lv_atr_pct lv) | _ \<Rightarrow> 0)
      in if levels \<noteq> None \<and> atr_pct < atr_min_percent data then Low_volatility
         else
           (let (stop_loss, take_profit) =
                  (case levels of
                     Some (Inr lv) \<Rightarrow>
                       if lv_stop_loss lv \<noteq> 0 \<and> lv_take_profit lv \<noteq> 0
                       then (Some (lv_stop_loss lv), Some (lv_take_profit lv))
                       else (stop_loss, take_profit)
                   | _ \<Rightarrow> (stop_loss, take_profit));
                entry = (if \<not> truthy entry then current_price else the entry);
                position_value = 100.0
            in if \<not> entry > 0 then Entry_zero
               else
                 (let amount = position_value / entry in
                  if stop_loss = None \<or> take_profit = None then Open_error
                  else if amount < 0.001 then Amount_too_small
                  else
                    (case (if is_demo then Some (Some (oe_demo_price env)) else oe_order_price env) of
                       None \<Rightarrow> Order_failed
                     | Some price \<Rightarrow>
                         (let entry_price_actual = (if truthy price then the price else entry)
                          in Opened
                               \<lparr> p_symbol = symbol, p_direction = direction, p_amount = amount,
                                 p_entry = Some entry_price_actual, p_stop_loss = stop_loss,
                                 p_take_profit = take_profit, p_status = ''open'',
                                 p_entry_time = Some now, p_timestamp = None,
                                 p_close_price = None, p_close_reason = None, p_pnl = 0 \<rparr>)))))"

text \<open>Lines 593-617: an opened demo trade is written to the store; a live one is not.\<close>

definition open_position ::
  "user_data \<Rightarrow> real \<Rightarrow> string \<Rightarrow> string \<Rightarrow> open_env \<Rightarrow> store \<Rightarrow> open_outcome \<times> store" where
  "open_position data now symbol action env s =
     (let outcome = open_decision data now symbol action env in
      (outcome,
       case outcome of
         Opened trade_data \<Rightarrow> if is_demo_mode data then add_demo_trade now trade_data s else s
       | _ \<Rightarrow> s))"

text \<open>
  The whole call: the cooldown after a stop-loss, the action of the decision, the look at
  existing positions, the opening.
\<close>

definition analyze_and_trade_step ::
  "user_data \<Rightarrow> real \<Rightarrow> cooldowns \<Rightarrow> string \<Rightarrow> string \<Rightarrow> open_env \<Rightarrow> store \<Rightarrow> open_outcome \<times> store" where
  "analyze_and_trade_step data now sl_cooldowns symbol action env s =
     (if (case sl_cooldowns symbol of
            None \<Rightarrow> False
          | Some last_sl_time \<Rightarrow> (now - last_sl_time) / 60 < sl_cooldown_minutes data)
      then (In_cooldown, s)
      else if take 5 action \<noteq> ''open_'' then (No_open_action, s)
      else
        (case position_guard data symbol (oe_positions env) of
           Some suppressed \<Rightarrow> (suppressed, s)
         | None \<Rightarrow> open_position data now symbol action env s))"

subsection \<open>Example account, positions and stores\<close>

definition demo_account :: user_data where
  "demo_account =
     \<lparr> auto_trading_enabled = True, has_api_keys = True, is_demo_mode = True,
       demo_balance = 10000, max_drawdown_percent = 20, max_open_positions = 5,
       max_holding_minutes = 7, force_close_minutes = 10, sl_cooldown_minutes = 15,
       atr_min_percent = 0.25 \<rparr>"

definition live_account :: user_data where
  "live_account = demo_account\<lparr> is_demo_mode := False \<rparr>"

text \<open>A long position opened at time 0 at price 100, stop at 99, target at 103.\<close>

definition long_position :: position where
  "long_position =
     \<lparr> p_symbol = ''ZEC/USDT:USDT'', p_direction = ''long'', p_amount = 1,
       p_entry = Some 100, p_stop_loss = Some 99, p_take_profit = Some 103,
       p_status = ''open'', p_entry_time = Some 0, p_timestamp = Some 0,
       p_close_price = None, p_close_reason = None, p_pnl = 0 \<rparr>"

definition empty_store :: "bool \<Rightarrow> store" where
  "empty_store use_db =
     \<lparr> s_use_database = use_db, s_trades = [], s_positions = [], s_demo_balance = 10000 \<rparr>"

definition price_100 :: "string \<Rightarrow> real option" where
  "price_100 symbol = Some 100"

text \<open>
  An opening on the calm series at price 100: the answers of the exchange, the position the
  orchestrator records when it opens long at a given time, the row the table holds for it,
  and the store of an account that has made this opening and nothing else.
\<close>

definition calm_env :: open_env where
  "calm_env =
     \<lparr> oe_positions = None, oe_recommendation = None, oe_current_price = 100,
       oe_ohlcv = Some (replicate 50 calm_candle), oe_demo_price = 100, oe_order_price = None \<rparr>"

definition opened_at :: "real \<Rightarrow> position" where
  "opened_at now =
     \<lparr> p_symbol = ''ZEC/USDT:USDT'', p_direction = ''long'', p_amount = 1,
       p_entry = Some 100, p_stop_loss = Some (497 / 5), p_take_profit = Some (509 / 5),
       p_status = ''open'', p_entry_time = Some now, p_timestamp = None,
       p_close_price = None, p_close_reason = None, p_pnl = 0 \<rparr>"

definition opened_row :: "nat \<Rightarrow> real \<Rightarrow> db_trade" where
  "opened_row trade_id now =
     \<lparr> t_trade_id = trade_id, t_symbol = ''ZEC/USDT:USDT'', t_direction = ''long'', t_amount = 1,
       t_entry_price = Some 100, t_stop_loss = Some (497 / 5), t_take_profit = Some (509 / 5),
       t_status = ''open'', t_entry_time = now, t_close_price = None, t_close_reason = None,
       t_pnl = 0, t_is_demo = True \<rparr>"

definition holding :: "bool \<Rightarrow> real \<Rightarrow> store" where
  "holding use_db now = snd (analyze_and_trade_step demo_account now Map.empty ''ZEC/USDT:USDT''
                               ''open_long'' calm_env (empty_store use_db))"

lemma open_decision_calm:
  "open_decision demo_account now ''ZEC/USDT:USDT'' ''open_long'' calm_env = Opened (opened_at now)"
  by (simp add: open_decision_def calm_env_def calibrate_calm_long calm_long_levels_def
        demo_account_def opened_at_def truthy_def py_round3_def round_half_even_def Let_def)

lemma analyze_and_trade_step_calm:
  "analyze_and_trade_step demo_account now Map.empty ''ZEC/USDT:USDT'' ''open_long'' calm_env s
     = (Opened (opened_at now), add_demo_trade now (opened_at now) s)"
proof -
  have d: "is_demo_mode demo_account"
    by (simp add: demo_account_def)
  show ?thesis
    by (simp add: analyze_and_trade_step_def position_guard_def open_position_def
          open_decision_calm d)
qed

lemma holding_json:
  "holding False now = (empty_store False)\<lparr> s_positions := [(opened_at now)\<lparr> p_timestamp := Some now \<rparr>] \<rparr>"
  by (simp add: holding_def analyze_and_trade_step_calm add_demo_trade_def save_demo_position_def
        json_demo_positions_def empty_store_def opened_at_def)

lemma holding_database:
  "holding True now =
     (empty_store True)\<lparr> s_trades := [opened_row 1 now],
                          s_positions := [(opened_at now)\<lparr> p_timestamp := Some now \<rparr>] \<rparr>"
  by (simp add: holding_def analyze_and_trade_step_calm add_demo_trade_def save_demo_position_def
        json_demo_positions_def get_open_trades_def create_trade_def empty_store_def
        opened_at_def opened_row_def)


subsection \<open>Claim on the drawdown stop\<close>

text \<open>The drawdown of the specification, over the reals.\<close>

definition spec_drawdown_percent :: "real \<Rightarrow> real \<Rightarrow> real" where
  "spec_drawdown_percent baseline_equity current_equity =
     (baseline_equity - current_equity) / baseline_equity * 100"

lemma drawdown_percent_9300: "drawdown_percent 10000 9300 = 7 + 1 / 2 ^ 50"
proof -
  have 1: "py_float 700 = 700"
    using py_float_eq[of 9 700] by (simp add: pow2_def round_half_even_def)
  have 2: "py_float (7 / 100) = 1261007895663739 / 18014398509481984"
    using py_float_eq[of "- 4" "7 / 100"] by (simp add: pow2_def round_half_even_def)
  have 3: "py_float (1261007895663739 / 18014398509481984 * 100) = 7 + 1 / 2 ^ 50"
    using py_float_eq[of 2 "1261007895663739 / 18014398509481984 * 100"]
    by (simp add: pow2_def round_half_even_def)
  from 3 show ?thesis
    by (simp add: drawdown_percent_def 1 2)
qed

lemma drawdown_percent_7900: "drawdown_percent 10000 7900 = 21"
proof -
  have 1: "py_float 2100 = 2100"
    using py_float_eq[of 11 2100] by (simp add: pow2_def round_half_even_def)
  have 2: "py_float (21 / 100) = 7566047373982433 / 36028797018963968"
    using py_float_eq[of "- 3" "21 / 100"] by (simp add: pow2_def round_half_even_def)
  have 3: "py_float (7566047373982433 / 36028797018963968 * 100) = 21"
    using py_float_eq[of 4 "7566047373982433 / 36028797018963968 * 100"]
    by (simp add: pow2_def round_half_even_def)
  from 3 show ?thesis
    by (simp add: drawdown_percent_def 1 2)
qed

lemma drawdown_percent_8100: "drawdown_percent 10000 8100 = 19"
proof -
  have 1: "py_float 1900 = 1900"
    using py_float_eq[of 10 1900] by (simp add: pow2_def round_half_even_def)
  have 2: "py_float (19 / 100) = 3422735716801577 / 18014398509481984"
    using py_float_eq[of "- 3" "19 / 100"] by (simp add: pow2_def round_half_even_def)
  have 3: "py_float (3422735716801577 / 18014398509481984 * 100) = 19"
    using py_float_eq[of 4 "3422735716801577 / 18014398509481984 * 100"]
    by (simp add: pow2_def round_half_even_def)
  from 3 show ?thesis
    by (simp add: drawdown_percent_def 1 2)
qed

lemma drawdown_percent_8000: "drawdown_percent 10000 8000 = 20"
proof -
  have 1: "py_float 2000 = 2000"
    using py_float_eq[of 10 2000] by (simp add: pow2_def round_half_even_def)
  have 2: "py_float (1 / 5) = 3602879701896397 / 18014398509481984"
    using py_float_eq[of "- 3" "1 / 5"] by (simp add: pow2_def round_half_even_def)
  have 3: "py_float (3602879701896397 / 18014398509481984 * 100) = 20"
    using py_float_eq[of 4 "3602879701896397 / 18014398509481984 * 100"]
    by (simp add: pow2_def round_half_even_def)
  from 3 show ?thesis
    by (simp add: drawdown_percent_def 1 2)
qed

lemma three_roundings:
  fixes A B C D E X1 X2 :: real
  assumes "C \<le> D / 9007199254740992" "B \<le> X1 / 10000 / 9007199254740992"
      "A \<le> X2 * 100 / 9007199254740992" "X1 \<le> D + C" "X2 \<le> X1 / 10000 + B"
      "E \<le> A + 100 * B + C / 100" "0 \<le> D"
  shows "E \<le> D / 100 / 2251799813685248"
  using assms by linarith

text \<open>The computed drawdown is the exact one up to a relative error of \<open>2\<^sup>-\<^sup>5\<^sup>1\<close>.\<close>

lemma drawdown_percent_error:
  "\<bar>drawdown_percent 10000 balance - spec_drawdown_percent 10000 balance\<bar>
     \<le> \<bar>spec_drawdown_percent 10000 balance\<bar> / 2 ^ 51"
proof -
  define d where "d = 10000 - balance"
  define x1 where "x1 = py_float d"
  define x2 where "x2 = py_float (x1 / 10000)"
  define x3 where "x3 = py_float (x2 * 100)"
  define a where "a = x3 - x2 * 100"
  define b where "b = x2 - x1 / 10000"
  define c where "c = x1 - d"
  have "\<bar>x1 - d\<bar> \<le> \<bar>d\<bar> / 2 ^ 53"
       "\<bar>x2 - x1 / 10000\<bar> \<le> \<bar>x1 / 10000\<bar> / 2 ^ 53"
       "\<bar>x3 - x2 * 100\<bar> \<le> \<bar>x2 * 100\<bar> / 2 ^ 53"
    unfolding x1_def x2_def x3_def by (rule py_float_error)+
  then have r: "\<bar>c\<bar> \<le> \<bar>d\<bar> / 9007199254740992"
       "\<bar>b\<bar> \<le> \<bar>x1\<bar> / 10000 / 9007199254740992"
       "\<bar>a\<bar> \<le> \<bar>x2\<bar> * 100 / 9007199254740992"
    by (simp_all add: a_def b_def c_def)
  have tri: "\<bar>p + q + r\<bar> \<le> \<bar>p\<bar> + \<bar>q\<bar> + \<bar>r\<bar>" for p q r :: real
    by linarith
  have t1: "\<bar>x1\<bar> \<le> \<bar>d\<bar> + \<bar>c\<bar>"
    unfolding c_def by linarith
  have t2: "\<bar>x2\<bar> \<le> \<bar>x1\<bar> / 10000 + \<bar>b\<bar>"
    using abs_triangle_ineq[of "x1 / 10000" b] by (simp add: b_def)
  have m: "\<bar>100 * b\<bar> = 100 * \<bar>b\<bar>" "\<bar>c / 100\<bar> = \<bar>c\<bar> / 100"
    by (simp_all add: abs_mult)
  have i: "a + 100 * b + c / 100 = x3 - d / 100"
    by (simp add: a_def b_def c_def diff_divide_distrib)
  from tri[of a "100 * b" "c / 100"]
  have t3: "\<bar>x3 - d / 100\<bar> \<le> \<bar>a\<bar> + 100 * \<bar>b\<bar> + \<bar>c\<bar> / 100"
    unfolding m i .
  have "\<bar>x3 - d / 100\<bar> \<le> \<bar>d\<bar> / 100 / 2251799813685248"
    by (rule three_roundings[OF r t1 t2 t3]) simp
  then have "\<bar>x3 - d / 100\<bar> \<le> \<bar>d / 100\<bar> / 2 ^ 51"
    by simp
  moreover have "drawdown_percent 10000 balance = x3"
    by (simp add: drawdown_percent_def x1_def x2_def x3_def d_def)
  moreover have "(10000 - balance) / 10000 * 100 = d / 100"
    by (simp add: d_def)
  ultimately show ?thesis
    by (simp only: spec_drawdown_percent_def)
qed

text \<open>
  Claim C5, as stated, speaks of every account and of the drawdown itself.  A live account
  that is enabled, has credentials and is outside the blocked times goes on to scan the pairs
  whatever its balance figure is: no drawdown is computed for it; here the figure is 7900.
  And on a demo account with balance 9300 and a maximum of 7 percent the drawdown is 7, which
  does not exceed the maximum, while the three rounded operations give \<open>7 + 2\<^sup>-\<^sup>5\<^sup>0\<close>, and
  the stop fires.
\<close>

theorem drawdown_stop_not_exactly_above_maximum:
  "cycle_head 12 2 (live_account\<lparr> demo_balance := 7900 \<rparr>)
     = (Scan_pairs, live_account\<lparr> demo_balance := 7900 \<rparr>)
   \<and> auto_trading_enabled (snd (cycle_head 12 2 (live_account\<lparr> demo_balance := 7900 \<rparr>)))
   \<and> spec_drawdown_percent 10000 9300 = 7
   \<and> cycle_head 12 2 (demo_account\<lparr> demo_balance := 9300, max_drawdown_percent := 7 \<rparr>)
     = (Drawdown_stop (7 + 1 / 2 ^ 50),
        demo_account\<lparr> demo_balance := 9300, max_drawdown_percent := 7,
                       auto_trading_enabled := False \<rparr>)"
  by (simp add: cycle_head_def live_account_def demo_account_def SCALPING_BLOCKED_HOURS_def
        SCALPING_BLOCKED_WEEKDAYS_def spec_drawdown_percent_def drawdown_percent_9300)

text \<open>
  Claim C5, amended.  When the head of a cycle reaches the drawdown check (trading enabled,
  credentials present, no blocked hour or weekday) on a demo account, the stop fires exactly
  when the drawdown as the code computes it, in double precision against the fixed baseline
  10000, strictly exceeds the configured maximum; firing stores
  \<^verbatim>\<open>auto_trading_enabled = False\<close> and leaves the loop; otherwise the cycle goes on with the
  account unchanged.  The computed drawdown is within a relative \<open>2\<^sup>-\<^sup>5\<^sup>1\<close> of the exact one, so
  the stop fires when the exact drawdown exceeds the maximum by more than that margin and
  does not fire when it stays below the maximum by that margin.  On a live account the cycle
  always goes on.
\<close>

theorem drawdown_stop_demo:
  assumes "auto_trading_enabled data" "has_api_keys data"
      "current_hour \<notin> SCALPING_BLOCKED_HOURS" "current_weekday \<notin> SCALPING_BLOCKED_WEEKDAYS"
  shows "(is_demo_mode data \<longrightarrow>
            (if drawdown_percent 10000 (demo_balance data) > max_drawdown_percent data
             then cycle_head current_hour current_weekday data
                    = (Drawdown_stop (drawdown_percent 10000 (demo_balance data)),
                       data\<lparr> auto_trading_enabled := False \<rparr>)
             else cycle_head current_hour current_weekday data = (Scan_pairs, data)))
       \<and> (is_demo_mode data
            \<and> spec_drawdown_percent 10000 (demo_balance data)
                  - \<bar>spec_drawdown_percent 10000 (demo_balance data)\<bar> / 2 ^ 51
                > max_drawdown_percent data \<longrightarrow>
            cycle_head current_hour current_weekday data
              = (Drawdown_stop (drawdown_percent 10000 (demo_balance data)),
                 data\<lparr> auto_trading_enabled := False \<rparr>))
       \<and> (is_demo_mode data
            \<and> spec_drawdown_percent 10000 (demo_balance data)
                  + \<bar>spec_drawdown_percent 10000 (demo_balance data)\<bar> / 2 ^ 51
                \<le> max_drawdown_percent data \<longrightarrow>
            cycle_head current_hour current_weekday data = (Scan_pairs, data))
       \<and> (\<not> is_demo_mode data \<longrightarrow> cycle_head current_hour current_weekday data = (Scan_pairs, data))"
proof -
  have h: "cycle_head current_hour current_weekday data =
             (if is_demo_mode data then
                if drawdown_percent 10000 (demo_balance data) > max_drawdown_percent data
                then (Drawdown_stop (drawdown_percent 10000 (demo_balance data)),
                      data\<lparr> auto_trading_enabled := False \<rparr>)
                else (Scan_pairs, data)
              else (Scan_pairs, data))"
    using assms by (simp add: cycle_head_def Let_def)
  from drawdown_percent_error[of "demo_balance data"]
  have e: "spec_drawdown_percent 10000 (demo_balance data)
             - \<bar>spec_drawdown_percent 10000 (demo_balance data)\<bar> / 2 ^ 51
             \<le> drawdown_percent 10000 (demo_balance data)"
          "drawdown_percent 10000 (demo_balance data)
             \<le> spec_drawdown_percent 10000 (demo_balance data)
               + \<bar>spec_drawdown_percent 10000 (demo_balance data)\<bar> / 2 ^ 51"
    by linarith+
  show ?thesis
  proof (intro conjI impI)
    assume "is_demo_mode data"
    then show "if drawdown_percent 10000 (demo_balance data) > max_drawdown_percent data
       then cycle_head current_hour current_weekday data
              = (Drawdown_stop (drawdown_percent 10000 (demo_balance data)),
                 data\<lparr> auto_trading_enabled := False \<rparr>)
       else cycle_head current_hour current_weekday data = (Scan_pairs, data)"
      by (simp add: h)
  next
    assume "is_demo_mode data
            \<and> spec_drawdown_percent 10000 (demo_balance data)
                  - \<bar>spec_drawdown_percent 10000 (demo_balance data)\<bar> / 2 ^ 51
                > max_drawdown_percent data"
    with e(1) have "is_demo_mode data"
        "drawdown_percent 10000 (demo_balance data) > max_drawdown_percent data"
      by linarith+
    then show "cycle_head current_hour current_weekday data
              = (Drawdown_stop (drawdown_percent 10000 (demo_balance data)),
                 data\<lparr> auto_trading_enabled := False \<rparr>)"
      by (simp add: h)
  next
    assume "is_demo_mode data
            \<and> spec_drawdown_percent 10000 (demo_balance data)
                  + \<bar>spec_drawdown_percent 10000 (demo_balance data)\<bar> / 2 ^ 51
                \<le> max_drawdown_percent data"
    with e(2) have "is_demo_mode data"
        "\<not> drawdown_percent 10000 (demo_balance data) > max_drawdown_percent data"
      by linarith+
    then show "cycle_head current_hour current_weekday data = (Scan_pairs, data)"
      by (simp add: h)
  next
    assume "\<not> is_demo_mode data"
    then show "cycle_head current_hour current_weekday data = (Scan_pairs, data)"
      by (simp add: h)
  qed
qed

theorem drawdown_stop_demo_witness:
  "cycle_head 12 2 (demo_account\<lparr> demo_balance := 7900 \<rparr>)
     = (Drawdown_stop 21, demo_account\<lparr> demo_balance := 7900, auto_trading_enabled := False \<rparr>)
   \<and> cycle_head 12 2 (demo_account\<lparr> demo_balance := 8100 \<rparr>)
     = (Scan_pairs, demo_account\<lparr> demo_balance := 8100 \<rparr>)
   \<and> cycle_head 12 2 (demo_account\<lparr> demo_balance := 8000 \<rparr>)
     = (Scan_pairs, demo_account\<lparr> demo_balance := 8000 \<rparr>)
   \<and> cycle_head 12 2 (live_account\<lparr> demo_balance := 7900 \<rparr>)
     = (Scan_pairs, live_account\<lparr> demo_balance := 7900 \<rparr>)"
  using drawdown_stop_demo[of "demo_account\<lparr> demo_balance := 7900 \<rparr>" 12 2]
        drawdown_stop_demo[of "demo_account\<lparr> demo_balance := 8100 \<rparr>" 12 2]
        drawdown_stop_demo[of "demo_account\<lparr> demo_balance := 8000 \<rparr>" 12 2]
        drawdown_stop_demo[of "live_account\<lparr> demo_balance := 7900 \<rparr>" 12 2]
  by (simp add: demo_account_def live_account_def SCALPING_BLOCKED_HOURS_def
        SCALPING_BLOCKED_WEEKDAYS_def drawdown_percent_7900 drawdown_percent_8100
        drawdown_percent_8000)

subsection \<open>Claim on the Position Monitor\<close>

text \<open>
  What the monitor does with a position whose record carries its entry time, at a tick with a
  non-zero ticker price: once the holding time has reached the hard threshold the position is
  closed at that price for the reason \<open>Forced_by_time\<close>, wherever the price stands; once it has
  reached the soft threshold only, it is closed for the stop or target that the price has hit
  in the same check, and otherwise for the reason \<open>Recommended_by_time\<close>.
\<close>

lemma monitor_trade_closes_by_holding_time:
  assumes "p_status trade = ''open''" "p_close_price trade = None" "truthy (p_entry trade)"
      "truthy (p_stop_loss trade) \<or> truthy (p_take_profit trade)"
      "p_entry_time trade = Some entry_dt" "price \<noteq> 0"
  shows "(force_close_minutes data \<le> (now - entry_dt) / 60 \<longrightarrow>
            monitor_trade data now (Some price) trade = Closed price Forced_by_time)
       \<and> (max_holding_minutes data \<le> (now - entry_dt) / 60
            \<and> (now - entry_dt) / 60 < force_close_minutes data \<longrightarrow>
            monitor_trade data now (Some price) trade =
              Closed price (case price_hit trade price of
                              Some reason \<Rightarrow> reason | None \<Rightarrow> Recommended_by_time))"
  using assms
  by (auto simp: monitor_trade_def holding_check_def truthy_def Let_def split: option.splits)

text \<open>
  The guards before the close: a position is passed over when the ticker gives price 0 or no
  answer, and a tick on a live account closes nothing.
\<close>

lemma monitor_trade_without_price:
  "monitor_trade demo_account 660 (Some 0) long_position = Skipped
   \<and> monitor_trade demo_account 660 None long_position = Skipped
   \<and> monitor_positions live_account 660 price_100 (Some [(''ZEC/USDT:USDT'', 1)])
        (empty_store False, Map.empty) = (empty_store False, Map.empty, [])"
  by (simp add: monitor_trade_def holding_check_def truthy_def long_position_def
        demo_account_def live_account_def monitor_positions_def Let_def)

text \<open>
  With the database in use, the positions the monitor reads carry no entry time: the mapping
  of \<^verbatim>\<open>get_demo_positions\<close> stores the row's time under \<^verbatim>\<open>timestamp\<close>, while the monitor
  reads \<^verbatim>\<open>entry_time\<close>.  Such a position is never closed for its holding time, so no tick
  on a database store makes a time-based close.
\<close>

lemma database_positions_carry_no_entry_time:
  assumes "s_use_database s" "trade \<in> set (get_demo_positions s)"
  shows "p_entry_time trade = None"
  using assms by (auto simp: get_demo_positions_def position_of_trade_def)

lemma no_entry_time_no_time_close:
  assumes "p_entry_time trade = None"
  shows "monitor_trade data now ticker_last trade \<noteq> Closed price Forced_by_time
       \<and> monitor_trade data now ticker_last trade \<noteq> Closed price Recommended_by_time"
  using assms
  by (auto simp: monitor_trade_def holding_check_def price_hit_def Let_def
           split: option.splits if_splits)

lemma monitor_walk_no_time_close:
  assumes "\<forall>trade \<in> set trades. p_entry_time trade = None"
      "\<forall>c \<in> set closes. snd (snd c) \<in> {Stop_loss_hit, Take_profit_hit}"
  shows "\<forall>c \<in> set (snd (snd (monitor_walk data now ticker trades (s, cd, closes)))).
           snd (snd c) \<in> {Stop_loss_hit, Take_profit_hit}"
  using assms
proof (induction trades arbitrary: s cd closes)
  case Nil
  then show ?case
    by simp
next
  case (Cons trade rest)
  from Cons.prems(1) have n: "p_entry_time trade = None" "\<forall>t \<in> set rest. p_entry_time t = None"
    by simp_all
  show ?case
  proof (cases "monitor_trade data now (ticker (p_symbol trade)) trade")
    case (Closed price reason)
    with no_entry_time_no_time_close[OF n(1), of data now "ticker (p_symbol trade)" price]
    have "reason \<in> {Stop_loss_hit, Take_profit_hit}"
      by (cases reason) simp_all
    with Cons.prems(2)
    have "\<forall>c \<in> set (closes @ [(p_symbol trade, price, reason)]).
            snd (snd c) \<in> {Stop_loss_hit, Take_profit_hit}"
      by auto
    from Cons.IH[OF n(2) this] Closed show ?thesis
      by simp
  next
    case Skipped
    with Cons.IH[OF n(2) Cons.prems(2)] show ?thesis
      by simp
  next
    case Kept
    with Cons.IH[OF n(2) Cons.prems(2)] show ?thesis
      by simp
  qed
qed

lemma database_store_no_time_close:
  assumes "s_use_database s"
  shows "\<forall>c \<in> set (snd (snd (monitor_positions data now ticker exchange_positions (s, cd)))).
           snd (snd c) \<in> {Stop_loss_hit, Take_profit_hit}"
proof (cases "is_demo_mode data")
  case True
  have "\<forall>trade \<in> set (get_demo_trades_open s). p_entry_time trade = None"
    using database_positions_carry_no_entry_time[OF assms]
    by (simp add: get_demo_trades_open_def)
  from monitor_walk_no_time_close[OF this, of "[]"] True show ?thesis
    by (simp add: monitor_positions_def)
next
  case False
  then show ?thesis
    by (simp add: monitor_positions_def)
qed

text \<open>
  Claim C4: a position held past the hard threshold is closed on the next monitor tick.  The
  orchestrator opens a demo position at time 0 at price 100, with the stop at 99.4 and the
  target at 101.8, and records its entry time (line 615).  The ticker stays at 100.  With the
  JSON store the record read back carries the entry time, and the tick eleven minutes later
  closes the position for the reason \<open>Forced_by_time\<close>.  With the database in use, which is
  the default, the record read back carries no entry time, and neither the tick eleven minutes
  later nor the tick a day later closes the position: the store is left as it was.
\<close>

theorem force_close_misses_database_positions:
  "map p_entry_time (get_demo_trades_open (holding False 0)) = [Some 0]
   \<and> snd (snd (monitor_positions demo_account 660 price_100 None (holding False 0, Map.empty)))
       = [(''ZEC/USDT:USDT'', 100, Forced_by_time)]
   \<and> get_demo_trades_open (fst (monitor_positions demo_account 660 price_100 None
                                   (holding False 0, Map.empty))) = []
   \<and> map p_entry_time (get_demo_trades_open (holding True 0)) = [None]
   \<and> monitor_positions demo_account 660 price_100 None (holding True 0, Map.empty)
       = (holding True 0, Map.empty, [])
   \<and> monitor_positions demo_account 86400 price_100 None (holding True 0, Map.empty)
       = (holding True 0, Map.empty, [])
   \<and> map p_symbol (get_demo_trades_open (holding True 0)) = [''ZEC/USDT:USDT'']"
  by (simp add: holding_json holding_database monitor_positions_def get_demo_trades_open_def
        get_demo_positions_def get_open_trades_def position_of_trade_def empty_store_def
        opened_at_def opened_row_def price_100_def monitor_trade_def holding_check_def
        truthy_def demo_account_def price_hit_def close_demo_trade_def
        close_position_record_def json_demo_positions_def update_demo_balance_def
        first_open.simps Let_def)

subsection \<open>At most one open position per symbol in the store\<close>























subsection \<open>Claim on the opening of positions\<close>






end
